theory Spec2Isabelle
  imports Complex_Main
begin

section \<open>R values\<close>

text \<open>
  The analysis service is written in R (\<^verbatim>\<open>r_service/plumber.R\<close>, with a standalone
  twin in \<^verbatim>\<open>r_scripts/irt_analysis.R\<close>).  A numeric scalar of R is a real number or
  the missing value \<^verbatim>\<open>NA\<close>; a logical scalar is a truth value or \<^verbatim>\<open>NA\<close>.  Both are
  options here, \<open>None\<close> standing for \<^verbatim>\<open>NA\<close>.
\<close>

type_synonym num = "real option"

type_synonym lgl = "bool option"

text \<open>
  A matrix with column names: the response matrix read from a CSV file, a coefficient
  table of the estimation engine, or a table of standard errors.  Rows are kept in
  order; every row of a well-formed matrix has one cell per column.
\<close>

record named_matrix =
  colnames :: "string list"
  mrows :: "num list list"

definition ncol :: "named_matrix \<Rightarrow> nat" where
  "ncol m = length (colnames m)"

definition nrow :: "named_matrix \<Rightarrow> nat" where
  "nrow m = length (mrows m)"

definition rectangular :: "named_matrix \<Rightarrow> bool" where
  "rectangular m = list_all (\<lambda>r. length r = ncol m) (mrows m)"

text \<open>\<^verbatim>\<open>as.vector(m)\<close> lists the cells column by column.\<close>

definition as_vector :: "named_matrix \<Rightarrow> num list" where
  "as_vector m = concat (transpose (mrows m))"

text \<open>\<^verbatim>\<open>unique(x)\<close> keeps the first occurrence of every value.\<close>

definition r_unique :: "'a list \<Rightarrow> 'a list" where
  "r_unique xs = rev (remdups (rev xs))"

text \<open>\<^verbatim>\<open>sort(x)\<close> drops the missing values and orders the rest increasingly.\<close>

definition r_sort :: "num list \<Rightarrow> real list" where
  "r_sort xs = sort (List.map_filter (\<lambda>c. c) xs)"

text \<open>\<^verbatim>\<open>rowSums(m, na.rm = TRUE)\<close>: per row, the sum of the cells that are not missing.\<close>

definition row_sum :: "num list \<Rightarrow> real" where
  "row_sum r = sum_list (List.map_filter (\<lambda>c. c) r)"

definition rowSums_na_rm :: "named_matrix \<Rightarrow> real list" where
  "rowSums_na_rm m = map row_sum (mrows m)"

text \<open>\<^verbatim>\<open>m[keep, , drop = FALSE]\<close> for a logical vector \<open>keep\<close> with one entry per row.\<close>

definition select_rows :: "named_matrix \<Rightarrow> bool list \<Rightarrow> named_matrix" where
  "select_rows m keep = m\<lparr>mrows := map fst (filter snd (zip (mrows m) keep))\<rparr>"

text \<open>
  \<^verbatim>\<open>round(x, d)\<close> rounds to \<open>d\<close> decimals, a tie going to the even digit
  (the IEC 60559 rule that R documents).
\<close>

definition round_half_even :: "real \<Rightarrow> int" where
  "round_half_even x =
     (let f = \<lfloor>x\<rfloor>; d = x - of_int f
      in if d < 1 / 2 then f else if 1 / 2 < d then f + 1 else if even f then f else f + 1)"

definition r_round :: "nat \<Rightarrow> real \<Rightarrow> real" where
  "r_round d x = of_int (round_half_even (x * 10 ^ d)) / 10 ^ d"

definition r_round_na :: "nat \<Rightarrow> num \<Rightarrow> num" where
  "r_round_na d x = map_option (r_round d) x"

section \<open>Errors\<close>

text \<open>
  Every \<^verbatim>\<open>stop\<close> of the source and every failure of a library call is a value of
  \<open>err\<close>.  \<open>SchemaError\<close> carries the values that the message of the source lists
  (\<^verbatim>\<open>paste(sort(unique_vals), collapse = ", ")\<close>); \<open>EstimationError\<close> carries the
  message of the estimation engine; \<open>DollarOnAtomicVector\<close> is R's error for \<^verbatim>\<open>x$name\<close>
  on a character string.
\<close>

datatype err =
    DataPathRequired
  | ReadError
  | SchemaError "real list"
  | InsufficientDataError
  | EstimationError string
  | SubscriptOutOfBounds
  | MissingValueInCondition
  | EngineFailure string
  | DollarOnAtomicVector

section \<open>Data validation and cleaning\<close>

text \<open>
  \<^verbatim>\<open>validate_and_clean_data(data_path, res)\<close> of \<^verbatim>\<open>plumber.R\<close>.  The files that
  \<^verbatim>\<open>read.csv\<close> can read are a partial map from paths to matrices; a path outside its
  domain makes \<^verbatim>\<open>read.csv\<close> fail.  The HTTP status written to \<^verbatim>\<open>res\<close> is overwritten
  by the error branch of every handler and is left out.
\<close>

type_synonym files = "string \<rightharpoonup> named_matrix"

record data_list =
  resp_clean :: named_matrix
  original_resp :: named_matrix

definition binary_or_na :: "num \<Rightarrow> bool" where
  "binary_or_na v = (v = Some 0 \<or> v = Some 1 \<or> v = None)"

definition valid_row :: "nat \<Rightarrow> real \<Rightarrow> bool" where
  "valid_row n s = (0 < s \<and> s < real n)"

definition validate_and_clean_data :: "files \<Rightarrow> string option \<Rightarrow> err + data_list" where
  "validate_and_clean_data fs data_path =
     (case data_path of
        None \<Rightarrow> Inl DataPathRequired
      | Some p \<Rightarrow>
          (case fs p of
             None \<Rightarrow> Inl ReadError
           | Some resp \<Rightarrow>
               (let unique_vals = r_unique (as_vector resp) in
                if \<not> list_all binary_or_na unique_vals
                then Inl (SchemaError (r_sort unique_vals))
                else
                  (let row_sums = rowSums_na_rm resp;
                       valid_rows = map (valid_row (ncol resp)) row_sums
                   in if length (filter (\<lambda>v. v) valid_rows) < 10
                      then Inl InsufficientDataError
                      else Inr \<lparr>resp_clean = select_rows resp valid_rows,
                                original_resp = resp\<rparr>))))"

section \<open>Logical operators with missing values\<close>

text \<open>
  A comparison with a missing number is missing.  \<^verbatim>\<open>|\<close> is true as soon as one side
  is true, even when the other is missing; \<^verbatim>\<open>any\<close> is true when some element is true,
  missing when none is true and some element is missing.
\<close>

definition r_gt :: "num \<Rightarrow> real \<Rightarrow> lgl" where
  "r_gt x c = map_option (\<lambda>v. c < v) x"

definition r_lt :: "num \<Rightarrow> real \<Rightarrow> lgl" where
  "r_lt x c = map_option (\<lambda>v. v < c) x"

definition r_or :: "lgl \<Rightarrow> lgl \<Rightarrow> lgl" where
  "r_or p q =
     (if p = Some True \<or> q = Some True then Some True
      else if p = None \<or> q = None then None
      else Some False)"

definition r_any :: "lgl list \<Rightarrow> lgl" where
  "r_any ps =
     (if Some True \<in> set ps then Some True
      else if None \<in> set ps then None
      else Some False)"

section \<open>Named access\<close>

text \<open>
  \<^verbatim>\<open>row["a"]\<close> on a named vector is the first element called \<^verbatim>\<open>a\<close>, and missing
  when there is none.  \<^verbatim>\<open>m[, "a"]\<close> on a matrix is the column called \<^verbatim>\<open>a\<close>, and an
  error (subscript out of bounds) when there is none.
\<close>

definition row_get :: "string list \<Rightarrow> num list \<Rightarrow> string \<Rightarrow> num" where
  "row_get nms r c = (case map_of (zip nms r) c of None \<Rightarrow> None | Some v \<Rightarrow> v)"

definition matrix_col :: "named_matrix \<Rightarrow> string \<Rightarrow> err + num list" where
  "matrix_col m c =
     (if c \<in> set (colnames m)
      then Inr (map (\<lambda>r. row_get (colnames m) r c) (mrows m))
      else Inl SubscriptOutOfBounds)"

section \<open>The estimation engine\<close>

text \<open>
  The package \<^verbatim>\<open>mirt\<close> is outside the repository.  A fitted model is the handle it
  returns, with what the source reads from it: the convergence flag and iteration count
  of \<^verbatim>\<open>model@OptimInfo\<close>, the coefficient table
  \<^verbatim>\<open>coef(model, simplify = TRUE, IRTpars = TRUE)$items\<close>, the list
  \<^verbatim>\<open>coef(model, SE = TRUE, IRTpars = TRUE, printSE = TRUE)\<close> of named per-item matrices
  (\<open>None\<close> for a \<^verbatim>\<open>NULL\<close> element), \<^verbatim>\<open>extract.item\<close>, \<^verbatim>\<open>testinfo\<close> and the fit
  statistics.  A call that can fail returns the message of its error on the left.
  \<^verbatim>\<open>probtrace\<close> is represented by its last column (the probability of a correct
  response) and, like \<^verbatim>\<open>iteminfo\<close> and \<^verbatim>\<open>testinfo\<close>, as a function of the ability.
\<close>

record item_obj =
  probtrace :: "string + (real \<Rightarrow> real)"
  iteminfo :: "string + (real \<Rightarrow> real)"

record m2_stat =
  m2_M2 :: num
  m2_df :: "int option"
  m2_p :: num
  m2_TLI :: num
  m2_RMSEA :: num

record fitted_model =
  converged :: bool
  iterations :: nat
  coef_items :: named_matrix
  coef_printSE :: "string + (string \<times> named_matrix option) list"
  extract_item :: "num \<Rightarrow> string + item_obj"
  testinfo :: "string + (real \<Rightarrow> real)"
  M2 :: "string + m2_stat"
  marginal_rxx :: "string + num"
  logLik :: "string + num"
  AIC :: "string + num"
  BIC :: "string + num"

text \<open>
  \<^verbatim>\<open>mirt(response_matrix, 1, itemtype = ..., ...)\<close>: the source fixes the seed and
  every other argument per item type, so the engine is a function of the matrix and
  the item type.
\<close>

type_synonym engine = "named_matrix \<Rightarrow> string \<Rightarrow> string + fitted_model"

section \<open>Model fitting with fallback\<close>

text \<open>
  \<^verbatim>\<open>fit_irt_model\<close> of \<^verbatim>\<open>plumber.R\<close>; \<^verbatim>\<open>fit_irt_model_standalone\<close> of
  \<^verbatim>\<open>irt_analysis.R\<close> has the same body.
\<close>

record fit_result =
  fit_model :: fitted_model
  fit_type :: string

definition row_extreme :: "num \<Rightarrow> num \<Rightarrow> num \<Rightarrow> lgl" where
  "row_extreme a b g =
     r_or (r_or (r_or (r_or (r_or (r_gt a 10) (r_lt a 0.01)) (r_gt b 10)) (r_lt b (- 10)))
       (r_gt g 0.5)) (r_lt g 0)"

definition extreme_params :: "named_matrix \<Rightarrow> err + lgl" where
  "extreme_params params_3pl =
     (case matrix_col params_3pl ''a'' of
        Inl e \<Rightarrow> Inl e
      | Inr a \<Rightarrow>
          (case matrix_col params_3pl ''b'' of
             Inl e \<Rightarrow> Inl e
           | Inr b \<Rightarrow>
               (case matrix_col params_3pl ''g'' of
                  Inl e \<Rightarrow> Inl e
                | Inr g \<Rightarrow>
                    Inr (r_any (map (\<lambda>(x, y, z). row_extreme x y z) (zip a (zip b g)))))))"

definition fit_2pl :: "engine \<Rightarrow> named_matrix \<Rightarrow> err + fit_result" where
  "fit_2pl mirt response_matrix =
     (case mirt response_matrix ''2PL'' of
        Inl msg \<Rightarrow> Inl (EstimationError msg)
      | Inr model_2pl \<Rightarrow> Inr \<lparr>fit_model = model_2pl, fit_type = ''2PL''\<rparr>)"

definition fit_irt_model :: "engine \<Rightarrow> named_matrix \<Rightarrow> err + fit_result" where
  "fit_irt_model mirt response_matrix =
     (let model_3pl = (case mirt response_matrix ''3PL'' of Inl msg \<Rightarrow> None | Inr m \<Rightarrow> Some m)
      in case model_3pl of
           None \<Rightarrow> fit_2pl mirt response_matrix
         | Some m \<Rightarrow>
             if converged m then
               (case extreme_params (coef_items m) of
                  Inl e \<Rightarrow> Inl e
                | Inr None \<Rightarrow> Inl MissingValueInCondition
                | Inr (Some extreme) \<Rightarrow>
                    if \<not> extreme then Inr \<lparr>fit_model = m, fit_type = ''3PL''\<rparr>
                    else fit_2pl mirt response_matrix)
             else fit_2pl mirt response_matrix)"

definition fit_irt_model_standalone :: "engine \<Rightarrow> named_matrix \<Rightarrow> err + fit_result" where
  "fit_irt_model_standalone mirt response_matrix = fit_irt_model mirt response_matrix"

section \<open>The model cache\<close>

text \<open>
  \<^verbatim>\<open>irt_model_cache\<close> is a global environment keyed by the data path.  The state of the
  service is this cache together with \<open>fit_calls\<close>, the number of times
  \<^verbatim>\<open>get_or_fit_model\<close> has entered \<^verbatim>\<open>fit_irt_model\<close>: a fit has no other effect than
  the work of the engine, and the counter makes that work visible.
\<close>

record service_state =
  irt_model_cache :: "string \<rightharpoonup> fit_result"
  fit_calls :: nat

definition get_or_fit_model ::
  "engine \<Rightarrow> service_state \<Rightarrow> string \<Rightarrow> named_matrix \<Rightarrow> (err + fit_result) \<times> service_state" where
  "get_or_fit_model mirt s data_path resp =
     (case irt_model_cache s data_path of
        Some entry \<Rightarrow> (Inr entry, s)
      | None \<Rightarrow>
          (let s1 = s\<lparr>fit_calls := fit_calls s + 1\<rparr>
           in case fit_irt_model mirt resp of
                Inl e \<Rightarrow> (Inl e, s1)
              | Inr fitted \<Rightarrow>
                  (Inr fitted,
                   s1\<lparr>irt_model_cache := (irt_model_cache s1)(data_path \<mapsto> fitted)\<rparr>)))"

section \<open>Standard errors\<close>

text \<open>
  \<^verbatim>\<open>extract_standard_errors(model, model_type)\<close>.  The whole body runs under a
  \<^verbatim>\<open>tryCatch\<close> that answers \<^verbatim>\<open>NULL\<close>, here \<open>None\<close>.  The loop runs over
  \<^verbatim>\<open>1:n_items\<close>, which for no item is the sequence 1, 0, whose first read is already
  out of bounds.  Standard errors are read from the second row of an item's matrix;
  reading a column \<^verbatim>\<open>a\<close> or \<^verbatim>\<open>b\<close> that the matrix does not have is an error.
\<close>

definition se_item_row :: "string \<Rightarrow> named_matrix option \<Rightarrow> err + num list" where
  "se_item_row mt item =
     (let blank = (if mt = ''3PL'' then [None, None, None, None] else [None, None, None])
      in case item of
           None \<Rightarrow> Inr blank
         | Some it \<Rightarrow>
             if 2 \<le> nrow it then
               (let r = mrows it ! 1; cs = colnames it in
                if ''a'' \<in> set cs \<and> ''b'' \<in> set cs then
                  (let se_a = row_get cs r ''a'';
                       se_b = row_get cs r ''b'';
                       se_g = (if mt = ''3PL'' \<and> ''g'' \<in> set cs then row_get cs r ''g'' else None);
                       se_u = (if ''u'' \<in> set cs then row_get cs r ''u'' else None)
                   in Inr (if mt = ''3PL'' then [se_a, se_b, se_g, se_u] else [se_a, se_b, se_u]))
                else Inl SubscriptOutOfBounds)
             else Inr blank)"

fun collect_rows :: "(err + 'a) list \<Rightarrow> err + 'a list" where
  "collect_rows [] = Inr []"
| "collect_rows (x # xs) =
     (case x of
        Inl e \<Rightarrow> Inl e
      | Inr v \<Rightarrow> (case collect_rows xs of Inl e \<Rightarrow> Inl e | Inr vs \<Rightarrow> Inr (v # vs)))"

definition extract_standard_errors :: "fitted_model \<Rightarrow> string \<Rightarrow> named_matrix option" where
  "extract_standard_errors model mt =
     (case coef_printSE model of
        Inl msg \<Rightarrow> None
      | Inr with_group \<Rightarrow>
          (let params_with_se =
                 (if ''GroupPars'' \<in> set (map fst with_group) then butlast with_group
                  else with_group)
           in if params_with_se = [] then None
              else
                (case collect_rows (map (\<lambda>(nm, item). se_item_row mt item) params_with_se) of
                   Inl e \<Rightarrow> None
                 | Inr rs \<Rightarrow>
                     Some \<lparr>colnames =
                              (if mt = ''3PL'' then [''a'', ''b'', ''g'', ''u'']
                               else [''a'', ''b'', ''u'']),
                           mrows = rs\<rparr>)))"

section \<open>Parameter extraction\<close>

text \<open>
  \<^verbatim>\<open>extract_item_params(params_table, params_se_table, model_type)\<close> builds one row
  per item, numbered from 1.  The item identifier is \<^verbatim>\<open>paste0("item_", i)\<close>.
\<close>

fun show_nat :: "nat \<Rightarrow> string" where
  "show_nat n =
     (if n < 10 then [''0123456789'' ! n]
      else show_nat (n div 10) @ [''0123456789'' ! (n mod 10)])"

definition item_name :: "nat \<Rightarrow> string" where
  "item_name i = ''item_'' @ show_nat i"

record item_param =
  item_id :: string
  discrimination :: num
  difficulty :: num
  guessing :: num
  se_discrimination :: num
  se_difficulty :: num
  se_guessing :: num
  model_type :: string

definition default_round :: "real \<Rightarrow> num \<Rightarrow> num" where
  "default_round dflt x = (case x of None \<Rightarrow> Some dflt | Some v \<Rightarrow> Some (r_round 4 v))"

definition extract_item_row ::
  "named_matrix \<Rightarrow> named_matrix option \<Rightarrow> string \<Rightarrow> nat \<times> num list \<Rightarrow> item_param" where
  "extract_item_row params_table params_se_table mt ir =
     (let i = fst ir; row = snd ir; cs = colnames params_table;
          a = row_get cs row ''a'';
          b = row_get cs row ''b'';
          g = (if mt = ''3PL'' \<and> ''g'' \<in> set cs then row_get cs row ''g'' else Some 0);
          se_table = (case params_se_table of
                        None \<Rightarrow> None
                      | Some st \<Rightarrow> if i \<le> nrow st then Some st else None);
          se_a = (case se_table of
                    None \<Rightarrow> None
                  | Some st \<Rightarrow>
                      if ''a'' \<in> set (colnames st)
                         \<and> row_get (colnames st) (mrows st ! (i - 1)) ''a'' \<noteq> None
                      then row_get (colnames st) (mrows st ! (i - 1)) ''a'' else None);
          se_b = (case se_table of
                    None \<Rightarrow> None
                  | Some st \<Rightarrow>
                      if ''b'' \<in> set (colnames st)
                         \<and> row_get (colnames st) (mrows st ! (i - 1)) ''b'' \<noteq> None
                      then row_get (colnames st) (mrows st ! (i - 1)) ''b'' else None);
          se_g = (case se_table of
                    None \<Rightarrow> Some 0
                  | Some st \<Rightarrow>
                      if mt = ''3PL'' \<and> ''g'' \<in> set (colnames st)
                         \<and> row_get (colnames st) (mrows st ! (i - 1)) ''g'' \<noteq> None
                      then row_get (colnames st) (mrows st ! (i - 1)) ''g'' else Some 0)
      in \<lparr>item_id = item_name i,
          discrimination = default_round 1 a,
          difficulty = default_round 0 b,
          guessing = r_round_na 4 g,
          se_discrimination = default_round 0 se_a,
          se_difficulty = default_round 0 se_b,
          se_guessing = r_round_na 4 se_g,
          model_type = mt\<rparr>)"

definition extract_item_params ::
  "named_matrix \<Rightarrow> named_matrix option \<Rightarrow> string \<Rightarrow> item_param list" where
  "extract_item_params params_table params_se_table mt =
     map (extract_item_row params_table params_se_table mt)
       (zip [1..<Suc (nrow params_table)] (mrows params_table))"

section \<open>Parameter cleaning\<close>

text \<open>
  \<^verbatim>\<open>clean_parameters(item_params, model_type)\<close>, the same in both files but for the
  log messages.  The loop rewrites row \<open>i\<close> only from row \<open>i\<close>, so it is a map.  Each
  guarded assignment of the loop body is a step on one row; \<open>clean_item\<close> runs them in
  the order of the source.
\<close>

definition fix_negative_discrimination :: "item_param \<Rightarrow> item_param" where
  "fix_negative_discrimination p =
     (case discrimination p of
        None \<Rightarrow> p
      | Some d \<Rightarrow> if d < 0 then p\<lparr>discrimination := Some \<bar>d\<bar>\<rparr> else p)"

definition cap_discrimination :: "item_param \<Rightarrow> item_param" where
  "cap_discrimination p =
     (case discrimination p of
        None \<Rightarrow> p
      | Some d \<Rightarrow> if 4 < d then p\<lparr>discrimination := Some 4\<rparr> else p)"

definition min_discrimination :: "item_param \<Rightarrow> item_param" where
  "min_discrimination p =
     (case discrimination p of
        None \<Rightarrow> p
      | Some d \<Rightarrow> if d < 0.1 then p\<lparr>discrimination := Some 0.1\<rparr> else p)"

definition min_difficulty :: "item_param \<Rightarrow> item_param" where
  "min_difficulty p =
     (case difficulty p of
        None \<Rightarrow> p
      | Some d \<Rightarrow> if d < - 4 then p\<lparr>difficulty := Some (- 4)\<rparr> else p)"

definition cap_difficulty :: "item_param \<Rightarrow> item_param" where
  "cap_difficulty p =
     (case difficulty p of
        None \<Rightarrow> p
      | Some d \<Rightarrow> if 4 < d then p\<lparr>difficulty := Some 4\<rparr> else p)"

definition min_guessing :: "item_param \<Rightarrow> item_param" where
  "min_guessing p =
     (case guessing p of
        None \<Rightarrow> p
      | Some c \<Rightarrow> if c < 0 then p\<lparr>guessing := Some 0\<rparr> else p)"

definition cap_guessing :: "item_param \<Rightarrow> item_param" where
  "cap_guessing p =
     (case guessing p of
        None \<Rightarrow> p
      | Some c \<Rightarrow> if 0.5 < c then p\<lparr>guessing := Some 0.5\<rparr> else p)"

definition clean_item :: "string \<Rightarrow> item_param \<Rightarrow> item_param" where
  "clean_item mt p0 =
     (let p1 = fix_negative_discrimination p0;
          p2 = cap_discrimination p1;
          p3 = min_discrimination p2;
          p4 = min_difficulty p3;
          p5 = cap_difficulty p4
      in if mt = ''3PL'' then cap_guessing (min_guessing p5) else p5)"

definition clean_parameters :: "item_param list \<Rightarrow> string \<Rightarrow> item_param list" where
  "clean_parameters item_params mt = map (clean_item mt) item_params"

section \<open>Curves\<close>

text \<open>
  The ability grid \<^verbatim>\<open>seq(-4, 4, length.out = 101)\<close>.  A curve pairs the grid,
  rounded to 6 decimals, with one value per grid point, rounded to 8 decimals or
  missing.
\<close>

definition theta_grid :: "real list" where
  "theta_grid = map (\<lambda>k. - 4 + real k * (8 / 100)) [0..<101]"

record curve =
  curve_theta :: "real list"
  curve_vals :: "num list"

definition on_grid :: "(real \<Rightarrow> real) \<Rightarrow> num list" where
  "on_grid f = map (\<lambda>t. Some (f t)) theta_grid"

definition na_curve :: "num list" where
  "na_curve = replicate (length theta_grid) None"

definition make_curve :: "num list \<Rightarrow> curve" where
  "make_curve vals =
     \<lparr>curve_theta = map (r_round 6) theta_grid, curve_vals = map (r_round_na 8) vals\<rparr>"

text \<open>
  \<^verbatim>\<open>what(extract.item(model, idx), Theta = matrix(theta))\<close> for \<open>what\<close> one of
  \<^verbatim>\<open>probtrace\<close> and \<^verbatim>\<open>iteminfo\<close>: either call may fail.
\<close>

definition item_values ::
  "fitted_model \<Rightarrow> num \<Rightarrow> (item_obj \<Rightarrow> string + (real \<Rightarrow> real)) \<Rightarrow> err + num list" where
  "item_values model idx what =
     (case extract_item model idx of
        Inl msg \<Rightarrow> Inl (EngineFailure msg)
      | Inr item \<Rightarrow>
          (case what item of
             Inl msg \<Rightarrow> Inl (EngineFailure msg)
           | Inr f \<Rightarrow> Inr (on_grid f)))"

text \<open>
  \<^verbatim>\<open>tryCatch(as.numeric(testinfo(model, Theta = matrix(theta))),
  error = function(e) rep(NA, length(theta)))\<close>.
\<close>

definition test_information_values :: "fitted_model \<Rightarrow> num list" where
  "test_information_values model =
     (case testinfo model of Inl msg \<Rightarrow> na_curve | Inr f \<Rightarrow> on_grid f)"

text \<open>
  A data frame in long format has one row per item and grid point: the ability, the
  value and the item identifier.
\<close>

type_synonym long_row = "real \<times> num \<times> string"

definition item_block :: "nat \<Rightarrow> num list \<Rightarrow> long_row list" where
  "item_block i vals =
     map (\<lambda>(t, v). (r_round 6 t, v, item_name i)) (zip theta_grid vals)"

text \<open>\<^verbatim>\<open>1:n\<close> counts down when \<open>n\<close> is 0; \<^verbatim>\<open>seq_len(n)\<close> is then empty.\<close>

definition one_to :: "nat \<Rightarrow> nat list" where
  "one_to n = (if n = 0 then [1, 0] else [1..<Suc n])"

definition seq_len :: "nat \<Rightarrow> nat list" where
  "seq_len n = [1..<Suc n]"

section \<open>The service operations\<close>

text \<open>
  The four handlers of \<^verbatim>\<open>plumber.R\<close>.  Each runs under a \<^verbatim>\<open>tryCatch\<close>.  In
  \<^verbatim>\<open>/icc\<close>, \<^verbatim>\<open>/iif\<close> and \<^verbatim>\<open>/testinfo\<close> the error branch answers
  \<^verbatim>\<open>status = "error"\<close> with a body made from the message of the error:
  \<^verbatim>\<open>e$message\<close> in \<^verbatim>\<open>/icc\<close> and \<^verbatim>\<open>/testinfo\<close>,
  \<^verbatim>\<open>paste("IIF calculation failed:", e$message)\<close> in \<^verbatim>\<open>/iif\<close>.  The error branch
  of \<^verbatim>\<open>/analyze\<close> is treated with that handler below.
\<close>

datatype failure_body = Message err | IIFFailed err

datatype 'a response = Success 'a | Failure failure_body

subsection \<open>Test information\<close>

definition testinfo_endpoint ::
  "engine \<Rightarrow> files \<Rightarrow> service_state \<Rightarrow> string option \<Rightarrow> curve response \<times> service_state" where
  "testinfo_endpoint mirt fs s data_path =
     (case validate_and_clean_data fs data_path of
        Inl e \<Rightarrow> (Failure (Message e), s)
      | Inr dl \<Rightarrow>
          (case data_path of
             None \<Rightarrow> (Failure (Message DataPathRequired), s)
           | Some p \<Rightarrow>
               (case get_or_fit_model mirt s p (resp_clean dl) of
                  (Inl e, s1) \<Rightarrow> (Failure (Message e), s1)
                | (Inr fitted, s1) \<Rightarrow>
                    (Success (make_curve (test_information_values (fit_model fitted))), s1))))"

subsection \<open>Item information\<close>

text \<open>
  Per item, the inner \<^verbatim>\<open>tryCatch\<close> of \<^verbatim>\<open>/iif\<close> turns a failure of
  \<^verbatim>\<open>extract.item\<close> or \<^verbatim>\<open>iteminfo\<close> into a block of missing values.
\<close>

definition iif_item :: "fitted_model \<Rightarrow> nat \<Rightarrow> long_row list" where
  "iif_item model i =
     (case item_values model (Some (real i)) iteminfo of
        Inr vals \<Rightarrow> item_block i (map (r_round_na 8) vals)
      | Inl e \<Rightarrow> item_block i na_curve)"

definition iif_endpoint ::
  "engine \<Rightarrow> files \<Rightarrow> service_state \<Rightarrow> string option \<Rightarrow>
     long_row list response \<times> service_state" where
  "iif_endpoint mirt fs s data_path =
     (case validate_and_clean_data fs data_path of
        Inl e \<Rightarrow> (Failure (IIFFailed e), s)
      | Inr dl \<Rightarrow>
          (case data_path of
             None \<Rightarrow> (Failure (IIFFailed DataPathRequired), s)
           | Some p \<Rightarrow>
               (case get_or_fit_model mirt s p (resp_clean dl) of
                  (Inl e, s1) \<Rightarrow> (Failure (IIFFailed e), s1)
                | (Inr fitted, s1) \<Rightarrow>
                    (Success
                       (concat (map (iif_item (fit_model fitted))
                          (one_to (ncol (resp_clean dl))))), s1))))"

subsection \<open>Item characteristic curves\<close>

text \<open>
  \<^verbatim>\<open>gsub("item_", "", item_id)\<close> removes every occurrence of the pattern, scanning
  from the left.  \<^verbatim>\<open>as.numeric\<close> on the remaining string is R's coercion, a parameter
  of the handler.
\<close>

fun remove_all :: "string \<Rightarrow> string \<Rightarrow> string" where
  "remove_all pat [] = []"
| "remove_all pat (c # cs) =
     (if pat \<noteq> [] \<and> take (length pat) (c # cs) = pat
      then remove_all pat (drop (length pat) (c # cs))
      else c # remove_all pat cs)"

record icc_single =
  icc_theta :: "real list"
  icc_probability :: "num list"
  icc_item_id :: string

datatype icc_result = ICCSingle icc_single | ICCAll "long_row list"

definition icc_item :: "fitted_model \<Rightarrow> nat \<Rightarrow> err + long_row list" where
  "icc_item model i =
     (case item_values model (Some (real i)) probtrace of
        Inl e \<Rightarrow> Inl e
      | Inr vals \<Rightarrow> Inr (item_block i (map (r_round_na 8) vals)))"

definition icc_endpoint ::
  "(string \<Rightarrow> num) \<Rightarrow> engine \<Rightarrow> files \<Rightarrow> service_state \<Rightarrow> string option \<Rightarrow> string option \<Rightarrow>
     icc_result response \<times> service_state" where
  "icc_endpoint as_numeric mirt fs s data_path req_item_id =
     (case validate_and_clean_data fs data_path of
        Inl e \<Rightarrow> (Failure (Message e), s)
      | Inr dl \<Rightarrow>
          (case data_path of
             None \<Rightarrow> (Failure (Message DataPathRequired), s)
           | Some p \<Rightarrow>
               (case get_or_fit_model mirt s p (resp_clean dl) of
                  (Inl e, s1) \<Rightarrow> (Failure (Message e), s1)
                | (Inr fitted, s1) \<Rightarrow>
                    (case req_item_id of
                       Some iid \<Rightarrow>
                         (case item_values (fit_model fitted)
                                 (as_numeric (remove_all ''item_'' iid)) probtrace of
                            Inl e \<Rightarrow> (Failure (Message e), s1)
                          | Inr vals \<Rightarrow>
                              (Success (ICCSingle
                                 \<lparr>icc_theta = map (r_round 6) theta_grid,
                                  icc_probability = map (r_round_na 8) vals,
                                  icc_item_id = iid\<rparr>), s1))
                     | None \<Rightarrow>
                         (case collect_rows (map (icc_item (fit_model fitted))
                                 (one_to (ncol (resp_clean dl)))) of
                            Inl e \<Rightarrow> (Failure (Message e), s1)
                          | Inr blocks \<Rightarrow> (Success (ICCAll (concat blocks)), s1))))))"

subsection \<open>Full analysis\<close>

text \<open>
  The fit statistics are computed alike by \<^verbatim>\<open>/analyze\<close> and by the standalone script:
  every call to the engine is under its own \<^verbatim>\<open>tryCatch\<close> and a failure leaves the
  statistic missing; what is present is rounded to 6 decimals.
\<close>

record model_fit =
  fit_m2 :: num
  fit_m2_df :: "int option"
  fit_m2_p :: num
  fit_tli :: num
  fit_rmsea :: num
  fit_reliability :: num
  fit_log_likelihood :: num
  fit_aic :: num
  fit_bic :: num
  fit_converged :: bool

definition or_na :: "string + num \<Rightarrow> num" where
  "or_na r = (case r of Inl msg \<Rightarrow> None | Inr v \<Rightarrow> v)"

definition fit_statistics :: "fitted_model \<Rightarrow> model_fit" where
  "fit_statistics model =
     (let m2stat = (case M2 model of Inl msg \<Rightarrow> None | Inr st \<Rightarrow> Some st);
          m2_value = (case m2stat of None \<Rightarrow> None | Some st \<Rightarrow> m2_M2 st);
          m2_df_val = (case m2stat of None \<Rightarrow> None | Some st \<Rightarrow> m2_df st);
          m2_p_val = (case m2stat of None \<Rightarrow> None | Some st \<Rightarrow> m2_p st);
          tli_val = (case m2stat of None \<Rightarrow> None | Some st \<Rightarrow> m2_TLI st);
          rmsea_val = (case m2stat of None \<Rightarrow> None | Some st \<Rightarrow> m2_RMSEA st);
          reliability_val = or_na (marginal_rxx model);
          ll_val = or_na (logLik model);
          aic_val = or_na (AIC model);
          bic_val = or_na (BIC model)
      in \<lparr>fit_m2 = r_round_na 6 m2_value,
          fit_m2_df = m2_df_val,
          fit_m2_p = r_round_na 6 m2_p_val,
          fit_tli = r_round_na 6 tli_val,
          fit_rmsea = r_round_na 6 rmsea_val,
          fit_reliability = r_round_na 6 reliability_val,
          fit_log_likelihood = r_round_na 6 ll_val,
          fit_aic = r_round_na 6 aic_val,
          fit_bic = r_round_na 6 bic_val,
          fit_converged = converged model\<rparr>)"

text \<open>
  When no standard errors could be extracted, both callers substitute a table of
  zeros with one row per item.
\<close>

definition zero_se_table :: "named_matrix \<Rightarrow> string \<Rightarrow> named_matrix" where
  "zero_se_table params mt =
     (if mt = ''3PL''
      then \<lparr>colnames = [''a'', ''b'', ''g'', ''u''],
            mrows = replicate (nrow params) (replicate 4 (Some 0))\<rparr>
      else \<lparr>colnames = [''a'', ''b'', ''u''],
            mrows = replicate (nrow params) (replicate 3 (Some 0))\<rparr>)"

definition item_parameter_table :: "fitted_model \<Rightarrow> string \<Rightarrow> item_param list" where
  "item_parameter_table model mt =
     (let params = coef_items model;
          params_se = (case extract_standard_errors model mt of
                         None \<Rightarrow> zero_se_table params mt
                       | Some t \<Rightarrow> t)
      in clean_parameters (extract_item_params params (Some params_se) mt) mt)"

text \<open>\<^verbatim>\<open>mean(m, na.rm = TRUE)\<close> is not a number when no cell is present.\<close>

definition mean_na_rm :: "named_matrix \<Rightarrow> num" where
  "mean_na_rm m =
     (let xs = List.map_filter (\<lambda>c. c) (as_vector m)
      in if xs = [] then None else Some (sum_list xs / real (length xs)))"

record model_info =
  info_type :: string
  info_converged :: bool
  info_iterations :: nat
  info_log_likelihood :: num

record data_summary =
  n_students :: nat
  n_items :: nat
  original_students :: nat
  response_rate :: num

record analysis =
  analysis_type :: string
  analysis_model_info :: model_info
  analysis_data_summary :: data_summary
  item_parameters :: "item_param list"
  analysis_model_fit :: model_fit
  test_information :: curve

text \<open>
  The answer of \<^verbatim>\<open>/analyze\<close> once a model is there.  The log-likelihood of
  \<^verbatim>\<open>model_info\<close> is read outside any local \<^verbatim>\<open>tryCatch\<close>, so its failure is a failure
  of the request.
\<close>

definition analysis_payload :: "fit_result \<Rightarrow> data_list \<Rightarrow> err + analysis" where
  "analysis_payload fitted dl =
     (let model = fit_model fitted; mt = fit_type fitted in
      case logLik model of
        Inl msg \<Rightarrow> Inl (EngineFailure msg)
      | Inr ll \<Rightarrow>
          Inr \<lparr>analysis_type = mt,
               analysis_model_info =
                 \<lparr>info_type = mt, info_converged = converged model,
                  info_iterations = iterations model, info_log_likelihood = ll\<rparr>,
               analysis_data_summary =
                 \<lparr>n_students = nrow (resp_clean dl), n_items = ncol (resp_clean dl),
                  original_students = nrow (original_resp dl),
                  response_rate = mean_na_rm (resp_clean dl)\<rparr>,
               item_parameters = item_parameter_table model mt,
               analysis_model_fit = fit_statistics model,
               test_information = make_curve (test_information_values model)\<rparr>)"

text \<open>
  The handler of \<^verbatim>\<open>/analyze\<close>.  Its error branch builds the answer
  \<^verbatim>\<open>list(status = "error", error = e$message$error)\<close>.  The message of a condition
  is a character string (\<^verbatim>\<open>stop\<close> pastes its arguments into one), and \<^verbatim>\<open>$\<close> on a
  character string is an error, raised inside the error branch and so not caught by
  the \<^verbatim>\<open>tryCatch\<close> of the handler: whatever went wrong in the body, the handler ends
  with that error and returns no answer of its own.
\<close>

definition analyze_endpoint ::
  "engine \<Rightarrow> files \<Rightarrow> service_state \<Rightarrow> string option \<Rightarrow>
     (err + analysis response) \<times> service_state" where
  "analyze_endpoint mirt fs s data_path =
     (case validate_and_clean_data fs data_path of
        Inl e \<Rightarrow> (Inl DollarOnAtomicVector, s)
      | Inr dl \<Rightarrow>
          (case data_path of
             None \<Rightarrow> (Inl DollarOnAtomicVector, s)
           | Some p \<Rightarrow>
               (case get_or_fit_model mirt s p (resp_clean dl) of
                  (Inl e, s1) \<Rightarrow> (Inl DollarOnAtomicVector, s1)
                | (Inr fitted, s1) \<Rightarrow>
                    (case analysis_payload fitted dl of
                       Inl e \<Rightarrow> (Inl DollarOnAtomicVector, s1)
                     | Inr r \<Rightarrow> (Inr (Success r), s1)))))"

section \<open>The standalone script\<close>

text \<open>
  \<^verbatim>\<open>perform_irt_analysis(input_file, output_file)\<close> of \<^verbatim>\<open>irt_analysis.R\<close>; the value
  it returns is also what it writes to the output file.  Its validation is the row
  filter alone (``Minimal for standalone'').  Curves are kept in named lists;
  \<^verbatim>\<open>l[[name]] <- v\<close> replaces the element of that name or appends one.
\<close>

fun set_named :: "string \<Rightarrow> 'a \<Rightarrow> (string \<times> 'a) list \<Rightarrow> (string \<times> 'a) list" where
  "set_named k v [] = [(k, v)]"
| "set_named k v (p # ps) = (if fst p = k then (k, v) # ps else p # set_named k v ps)"

text \<open>The loop over the items for the characteristic curves: a failure ends the analysis.\<close>

fun icc_loop ::
  "fitted_model \<Rightarrow> nat list \<Rightarrow> (string \<times> curve) list \<Rightarrow> err + (string \<times> curve) list" where
  "icc_loop model [] icc_list = Inr icc_list"
| "icc_loop model (i # rest) icc_list =
     (case item_values model (Some (real i)) probtrace of
        Inl e \<Rightarrow> Inl e
      | Inr vals \<Rightarrow> icc_loop model rest (set_named (item_name i) (make_curve vals) icc_list))"

text \<open>
  The loop over the items for the information curves.  The body is under a
  \<^verbatim>\<open>tryCatch\<close>.  On success the assignment to \<^verbatim>\<open>iif_list\<close> is evaluated in the frame
  of \<^verbatim>\<open>perform_irt_analysis\<close> and extends the list.  On failure the handler
  \<^verbatim>\<open>function(e) { ...; iif_list[[paste0("item_", i)]] <- list(...) }\<close> assigns with
  \<^verbatim>\<open><-\<close> inside its own frame: it builds a local copy named \<^verbatim>\<open>iif_list\<close>, which is
  dropped when the handler returns, and the list of the loop is as before.
\<close>

fun iif_loop ::
  "fitted_model \<Rightarrow> nat list \<Rightarrow> (string \<times> curve) list \<Rightarrow> (string \<times> curve) list" where
  "iif_loop model [] iif_list = iif_list"
| "iif_loop model (i # rest) iif_list =
     (case item_values model (Some (real i)) iteminfo of
        Inr vals \<Rightarrow> iif_loop model rest (set_named (item_name i) (make_curve vals) iif_list)
      | Inl e \<Rightarrow> iif_loop model rest iif_list)"

record results =
  res_model_type :: string
  res_items :: nat
  res_respondents :: nat
  res_parameters :: "item_param list"
  res_model_fit :: model_fit
  res_icc :: "(string \<times> curve) list"
  res_iif :: "(string \<times> curve) list"
  res_test_information :: curve

definition perform_irt_analysis :: "engine \<Rightarrow> files \<Rightarrow> string \<Rightarrow> err + results" where
  "perform_irt_analysis mirt fs input_file =
     (case fs input_file of
        None \<Rightarrow> Inl ReadError
      | Some responses \<Rightarrow>
          (let row_sums = rowSums_na_rm responses;
               valid_rows = map (valid_row (ncol responses)) row_sums;
               responses_clean = select_rows responses valid_rows
           in if nrow responses_clean < 10 then Inl InsufficientDataError
              else
                (case fit_irt_model_standalone mirt responses_clean of
                   Inl e \<Rightarrow> Inl e
                 | Inr fitted \<Rightarrow>
                     (let model = fit_model fitted; mt = fit_type fitted;
                          item_params_df = item_parameter_table model mt
                      in case icc_loop model (seq_len (ncol responses_clean)) [] of
                           Inl e \<Rightarrow> Inl e
                         | Inr icc_list \<Rightarrow>
                             Inr \<lparr>res_model_type = mt,
                                  res_items = ncol responses_clean,
                                  res_respondents = nrow responses_clean,
                                  res_parameters = item_params_df,
                                  res_model_fit = fit_statistics model,
                                  res_icc = icc_list,
                                  res_iif = iif_loop model (seq_len (ncol responses_clean)) [],
                                  res_test_information =
                                    make_curve (test_information_values model)\<rparr>))))"

section \<open>Notions used in the statements\<close>

text \<open>
  The bounds of the plausibility check as the specification words them:
  discrimination in (0.01, 10], difficulty in [-10, 10], guessing in [0, 0.5].
\<close>

definition spec_plausible_item :: "num \<Rightarrow> num \<Rightarrow> num \<Rightarrow> bool" where
  "spec_plausible_item a b g =
     (case a of
        None \<Rightarrow> False
      | Some x \<Rightarrow>
          (case b of
             None \<Rightarrow> False
           | Some y \<Rightarrow>
               (case g of
                  None \<Rightarrow> False
                | Some z \<Rightarrow> 0.01 < x \<and> x \<le> 10 \<and> - 10 \<le> y \<and> y \<le> 10 \<and> 0 \<le> z \<and> z \<le> 0.5)))"

definition spec_plausible :: "named_matrix \<Rightarrow> bool" where
  "spec_plausible t =
     list_all
       (\<lambda>r. spec_plausible_item (row_get (colnames t) r ''a'') (row_get (colnames t) r ''b'')
              (row_get (colnames t) r ''g''))
       (mrows t)"

text \<open>
  The same with the closed interval [0.01, 10] for the discrimination, and the two
  ways for a fitted Rich model to be taken or left: \<open>rich_accepted\<close> when the engine
  returns a converged model whose table has the three columns and every coefficient in
  its interval, \<open>rich_rejected\<close> when the engine fails, or the model has not converged,
  or some coefficient that is present lies outside its interval.
\<close>

definition inside :: "real \<Rightarrow> real \<Rightarrow> num \<Rightarrow> bool" where
  "inside lo hi x = (case x of None \<Rightarrow> False | Some v \<Rightarrow> lo \<le> v \<and> v \<le> hi)"

definition outside :: "real \<Rightarrow> real \<Rightarrow> num \<Rightarrow> bool" where
  "outside lo hi x = (case x of None \<Rightarrow> False | Some v \<Rightarrow> v < lo \<or> hi < v)"

definition has_abg :: "named_matrix \<Rightarrow> bool" where
  "has_abg t = (''a'' \<in> set (colnames t) \<and> ''b'' \<in> set (colnames t) \<and> ''g'' \<in> set (colnames t))"

definition all_inside :: "named_matrix \<Rightarrow> bool" where
  "all_inside t =
     list_all
       (\<lambda>r. inside 0.01 10 (row_get (colnames t) r ''a'')
            \<and> inside (- 10) 10 (row_get (colnames t) r ''b'')
            \<and> inside 0 0.5 (row_get (colnames t) r ''g''))
       (mrows t)"

definition some_outside :: "named_matrix \<Rightarrow> bool" where
  "some_outside t =
     list_ex
       (\<lambda>r. outside 0.01 10 (row_get (colnames t) r ''a'')
            \<or> outside (- 10) 10 (row_get (colnames t) r ''b'')
            \<or> outside 0 0.5 (row_get (colnames t) r ''g''))
       (mrows t)"

definition rich_accepted :: "engine \<Rightarrow> named_matrix \<Rightarrow> bool" where
  "rich_accepted mirt M =
     (case mirt M ''3PL'' of
        Inl msg \<Rightarrow> False
      | Inr m \<Rightarrow> converged m \<and> has_abg (coef_items m) \<and> all_inside (coef_items m))"

definition rich_rejected :: "engine \<Rightarrow> named_matrix \<Rightarrow> bool" where
  "rich_rejected mirt M =
     (case mirt M ''3PL'' of
        Inl msg \<Rightarrow> True
      | Inr m \<Rightarrow> \<not> converged m \<or> (has_abg (coef_items m) \<and> some_outside (coef_items m)))"

text \<open>The state after a list of further requests to the cache, each a key and a matrix.\<close>

definition after_calls ::
  "engine \<Rightarrow> service_state \<Rightarrow> (string \<times> named_matrix) list \<Rightarrow> service_state" where
  "after_calls mirt s calls = foldl (\<lambda>st (k, m). snd (get_or_fit_model mirt st k m)) s calls"

section \<open>Example data\<close>

text \<open>
  Concrete tables, models and engines on which the theorems below are evaluated.
\<close>

definition mixed_row :: "num list" where
  "mixed_row = [Some 1, Some 0, Some 1]"

definition twelve_rows :: named_matrix where
  "twelve_rows =
     \<lparr>colnames = [''q1'', ''q2'', ''q3''],
      mrows = [Some 1, Some 1, Some 1] # [Some 0, Some 0, Some 0] # replicate 10 mixed_row\<rparr>"

definition eleven_rows :: named_matrix where
  "eleven_rows =
     \<lparr>colnames = [''q1'', ''q2'', ''q3''],
      mrows = [Some 1, Some 1, Some 1] # [Some 0, Some 0, Some 0] # replicate 9 mixed_row\<rparr>"

definition raw_item :: "real \<Rightarrow> item_param" where
  "raw_item d =
     \<lparr>item_id = ''item_1'', discrimination = Some d, difficulty = Some 0,
      guessing = Some 0.2, se_discrimination = Some 0, se_difficulty = Some 0,
      se_guessing = Some 0, model_type = ''3PL''\<rparr>"

definition wild_coefs :: named_matrix where
  "wild_coefs =
     \<lparr>colnames = [''a'', ''b'', ''g'', ''u''],
      mrows = [[None, Some 100, Some 0.2, Some 1],
               [Some (- 7.3), None, Some 0.7, Some 1],
               [Some 0.05, Some (- 12.5), None, Some 1]]\<rparr>"

definition flat_item :: item_obj where
  "flat_item = \<lparr>probtrace = Inr (\<lambda>t. 1 / 2), iteminfo = Inr (\<lambda>t. 1 / 4)\<rparr>"

definition coef_table :: "(real \<times> real \<times> real) list \<Rightarrow> named_matrix" where
  "coef_table abgs =
     \<lparr>colnames = [''a'', ''b'', ''g'', ''u''],
      mrows = map (\<lambda>(a, b, g). [Some a, Some b, Some g, Some 1]) abgs\<rparr>"

definition model_with :: "bool \<Rightarrow> named_matrix \<Rightarrow> fitted_model" where
  "model_with conv coefs =
     \<lparr>converged = conv, iterations = 25, coef_items = coefs,
      coef_printSE = Inl ''no standard errors'',
      extract_item = (\<lambda>i. Inr flat_item),
      testinfo = Inr (\<lambda>t. 1),
      M2 = Inl ''no M2'',
      marginal_rxx = Inr (Some 0.8),
      logLik = Inr (Some (- 100)),
      AIC = Inr (Some 220),
      BIC = Inr (Some 240)\<rparr>"

definition engine_of :: "string + fitted_model \<Rightarrow> string + fitted_model \<Rightarrow> engine" where
  "engine_of rich simple = (\<lambda>M itemtype. if itemtype = ''3PL'' then rich else simple)"

definition edge_model :: fitted_model where
  "edge_model = model_with True (coef_table [(1.2, 0.3, 0.2), (0.01, 0, 0.25)])"

definition guessy_model :: fitted_model where
  "guessy_model = model_with True (coef_table [(1.2, 0.3, 0.2), (0.9, - 1, 0.7)])"

definition rough_model :: fitted_model where
  "rough_model = model_with False (coef_table [(50, - 20, 0), (- 3, 0, 0)])"

definition ten_rows :: named_matrix where
  "ten_rows = \<lparr>colnames = [''q1'', ''q2'', ''q3''], mrows = replicate 10 mixed_row\<rparr>"

definition empty_service :: service_state where
  "empty_service = \<lparr>irt_model_cache = Map.empty, fit_calls = 0\<rparr>"

definition gap_rows :: named_matrix where
  "gap_rows =
     \<lparr>colnames = [''q1'', ''q2'', ''q3''], mrows = replicate 10 [Some 1, Some 1, None]\<rparr>"

definition odd_rows :: named_matrix where
  "odd_rows =
     \<lparr>colnames = [''q1'', ''q2'', ''q3''], mrows = replicate 10 [Some 2, Some 0, Some 0]\<rparr>"

definition blank_rows :: named_matrix where
  "blank_rows =
     \<lparr>colnames = [''q1'', ''q2'', ''q3''], mrows = replicate 10 [Some 0, Some 0, None]\<rparr>"

definition broken_item :: item_obj where
  "broken_item = \<lparr>probtrace = Inr (\<lambda>t. 1 / 2), iteminfo = Inl ''iteminfo failed''\<rparr>"

definition second_item_fails :: fitted_model where
  "second_item_fails =
     (model_with True (coef_table [(1, 0, 0), (1, 0, 0), (1, 0, 0)]))
       \<lparr>extract_item := (\<lambda>i. if i = Some 2 then Inr broken_item else Inr flat_item)\<rparr>"

section \<open>Properties of validation\<close>

lemma heads_tails_cells:
  "set (concat (map (case_list [] (\<lambda>h t. [h])) xss)) \<union>
   \<Union> (set ` set (concat (map (case_list [] (\<lambda>h t. [t])) xss))) = \<Union> (set ` set xss)"
proof (induction xss)
  case Nil
  then show ?case by simp
next
  case (Cons ys yss)
  let ?H = "set (concat (map (case_list [] (\<lambda>h t. [h])) yss))"
  let ?T = "\<Union> (set ` set (concat (map (case_list [] (\<lambda>h t. [t])) yss)))"
  have "set (concat (map (case_list [] (\<lambda>h t. [h])) (ys # yss))) \<union>
        \<Union> (set ` set (concat (map (case_list [] (\<lambda>h t. [t])) (ys # yss)))) =
        set ys \<union> (?H \<union> ?T)"
    by (cases ys)
      (simp_all only: list.map list.case concat.simps set_append set_simps image_Un
        Union_Un_distrib image_insert image_empty Union_insert Union_empty Un_empty_left
        Un_empty_right Un_assoc Un_left_commute Un_insert_left Un_insert_right)
  also have "?H \<union> ?T = \<Union> (set ` set yss)" by (rule Cons.IH)
  finally show ?case by simp
qed

lemma set_concat_transpose: "set (concat (transpose xss)) = \<Union> (set ` set xss)"
proof (induction xss rule: transpose.induct)
  case 1
  then show ?case by simp
next
  case (2 xss)
  then show ?case by simp
next
  case (3 x xs xss)
  let ?H = "set (concat (map (case_list [] (\<lambda>h t. [h])) xss))"
  let ?T = "\<Union> (set ` set (concat (map (case_list [] (\<lambda>h t. [t])) xss)))"
  have "set (concat (transpose ((x # xs) # xss))) =
        insert x ?H \<union>
        set (concat (transpose (xs # concat (map (case_list [] (\<lambda>h t. [t])) xss))))"
    by (simp only: transpose.simps concat.simps set_append set_simps)
  also have "\<dots> = insert x ?H \<union> (set xs \<union> ?T)"
    by (simp only: "3.IH" set_simps image_insert Union_insert)
  also have "\<dots> = insert x (set xs) \<union> (?H \<union> ?T)"
    by blast
  also have "\<dots> = insert x (set xs) \<union> \<Union> (set ` set xss)"
    by (simp only: heads_tails_cells)
  finally show ?case by simp
qed

lemma set_unique_vals: "set (r_unique (as_vector m)) = \<Union> (set ` set (mrows m))"
  unfolding r_unique_def as_vector_def
  by (simp only: set_rev set_remdups set_concat_transpose)

lemma unique_vals_binary:
  "list_all binary_or_na (r_unique (as_vector m)) = list_all (list_all binary_or_na) (mrows m)"
  by (auto simp: list_all_iff set_unique_vals)

lemma select_valid_rows:
  "map fst (filter snd (zip rs (map (\<lambda>r. P (f r)) rs))) = filter (\<lambda>r. P (f r)) rs"
  by (induction rs) auto

lemma count_valid_rows:
  "length (filter (\<lambda>v. v) (map (\<lambda>r. P (f r)) rs)) = length (filter (\<lambda>r. P (f r)) rs)"
  by (induction rs) auto

lemma list_all_replicate: "list_all P (replicate n x) = (n = 0 \<or> P x)"
  by (induction n) auto

lemma filter_replicate: "filter P (replicate n x) = (if P x then replicate n x else [])"
  by (induction n) auto

lemma mixed_row_sum: "row_sum mixed_row = 2"
  by (simp add: row_sum_def mixed_row_def)

lemma ones_row_sum: "row_sum [Some 1, Some 1, Some 1] = 3"
  by (simp add: row_sum_def)

lemma zeros_row_sum: "row_sum [Some 0, Some 0, Some 0] = 0"
  by (simp add: row_sum_def)

lemma mixed_row_binary: "list_all binary_or_na mixed_row"
  by (simp add: mixed_row_def binary_or_na_def)

text \<open>
  C5.  On a table whose cells are all 0, 1 or missing, validation keeps exactly the
  rows whose sum is strictly between 0 and the number of items, in their order, and
  fails with \<open>InsufficientDataError\<close> exactly when fewer than 10 such rows remain:
  10 kept rows are accepted, 9 are refused.
\<close>

theorem validate_keeps_informative_rows:
  assumes "fs p = Some resp" and "list_all (list_all binary_or_na) (mrows resp)"
  shows "validate_and_clean_data fs (Some p) =
     (if length (filter (\<lambda>r. 0 < row_sum r \<and> row_sum r < real (ncol resp)) (mrows resp)) < 10
      then Inl InsufficientDataError
      else Inr \<lparr>resp_clean =
                   resp\<lparr>mrows := filter (\<lambda>r. 0 < row_sum r \<and> row_sum r < real (ncol resp))
                                     (mrows resp)\<rparr>,
                 original_resp = resp\<rparr>)"
proof -
  have v: "valid_row (ncol resp) = (\<lambda>x. 0 < x \<and> x < real (ncol resp))"
    by (simp add: valid_row_def fun_eq_iff)
  show ?thesis
    using assms
    by (simp add: validate_and_clean_data_def unique_vals_binary Let_def rowSums_na_rm_def
      select_rows_def comp_def v select_valid_rows [where P="\<lambda>x. 0 < x \<and> x < real (ncol resp)"] 
      count_valid_rows [where P="\<lambda>x. 0 < x \<and> x < real (ncol resp)"])
qed

theorem validate_keeps_informative_rows_witness:
  "validate_and_clean_data [''twelve.csv'' \<mapsto> twelve_rows] (Some ''twelve.csv'') =
     Inr \<lparr>resp_clean = twelve_rows\<lparr>mrows := replicate 10 mixed_row\<rparr>,
          original_resp = twelve_rows\<rparr>
   \<and> validate_and_clean_data [''eleven.csv'' \<mapsto> eleven_rows] (Some ''eleven.csv'') =
     Inl InsufficientDataError"
proof -
  have a: "list_all (list_all binary_or_na) (mrows twelve_rows)"
    by (simp add: twelve_rows_def binary_or_na_def list_all_replicate mixed_row_binary)
  have b: "list_all (list_all binary_or_na) (mrows eleven_rows)"
    by (simp add: eleven_rows_def binary_or_na_def list_all_replicate mixed_row_binary)
  have c: "[''twelve.csv'' \<mapsto> twelve_rows] ''twelve.csv'' = Some twelve_rows" by simp
  have d: "[''eleven.csv'' \<mapsto> eleven_rows] ''eleven.csv'' = Some eleven_rows" by simp
  show ?thesis
    using validate_keeps_informative_rows
            [of "[''twelve.csv'' \<mapsto> twelve_rows]" "''twelve.csv''" twelve_rows, OF c a]
          validate_keeps_informative_rows
            [of "[''eleven.csv'' \<mapsto> eleven_rows]" "''eleven.csv''" eleven_rows, OF d b]
    by (simp add: twelve_rows_def eleven_rows_def ncol_def filter_replicate mixed_row_sum
        ones_row_sum zeros_row_sum)
qed


section \<open>Properties of parameter cleaning\<close>

lemma fix_negative_fields:
  "discrimination (fix_negative_discrimination p) =
     map_option (\<lambda>d. if d < 0 then \<bar>d\<bar> else d) (discrimination p)"
  "difficulty (fix_negative_discrimination p) = difficulty p"
  by (cases "discrimination p"; simp add: fix_negative_discrimination_def)+

lemma cap_discrimination_fields:
  "discrimination (cap_discrimination p) =
     map_option (\<lambda>d. if 4 < d then 4 else d) (discrimination p)"
  "difficulty (cap_discrimination p) = difficulty p"
  by (cases "discrimination p"; simp add: cap_discrimination_def)+

lemma min_discrimination_fields:
  "discrimination (min_discrimination p) =
     map_option (\<lambda>d. if d < 0.1 then 0.1 else d) (discrimination p)"
  "difficulty (min_discrimination p) = difficulty p"
  by (cases "discrimination p"; simp add: min_discrimination_def)+

lemma min_difficulty_fields:
  "discrimination (min_difficulty p) = discrimination p"
  "difficulty (min_difficulty p) = map_option (\<lambda>d. if d < - 4 then - 4 else d) (difficulty p)"
  by (cases "difficulty p"; simp add: min_difficulty_def)+

lemma cap_difficulty_fields:
  "discrimination (cap_difficulty p) = discrimination p"
  "difficulty (cap_difficulty p) = map_option (\<lambda>d. if 4 < d then 4 else d) (difficulty p)"
  by (cases "difficulty p"; simp add: cap_difficulty_def)+

lemma min_guessing_fields:
  "discrimination (min_guessing p) = discrimination p"
  "difficulty (min_guessing p) = difficulty p"
  by (cases "guessing p"; simp add: min_guessing_def)+

lemma cap_guessing_fields:
  "discrimination (cap_guessing p) = discrimination p"
  "difficulty (cap_guessing p) = difficulty p"
  by (cases "guessing p"; simp add: cap_guessing_def)+

lemma clean_step_ids:
  "item_id (fix_negative_discrimination p) = item_id p"
  "item_id (cap_discrimination p) = item_id p"
  "item_id (min_discrimination p) = item_id p"
  "item_id (min_difficulty p) = item_id p"
  "item_id (cap_difficulty p) = item_id p"
  "item_id (min_guessing p) = item_id p"
  "item_id (cap_guessing p) = item_id p"
  by (simp_all add: fix_negative_discrimination_def cap_discrimination_def
      min_discrimination_def min_difficulty_def cap_difficulty_def min_guessing_def
      cap_guessing_def split: option.split)

lemmas clean_step_fields =
  fix_negative_fields cap_discrimination_fields min_discrimination_fields
  min_difficulty_fields cap_difficulty_fields min_guessing_fields cap_guessing_fields

lemma clean_item_discrimination:
  "discrimination (clean_item mt p) =
     map_option
       (\<lambda>d. let d1 = (if d < 0 then \<bar>d\<bar> else d);
                d2 = (if 4 < d1 then 4 else d1)
            in if d2 < 0.1 then 0.1 else d2)
       (discrimination p)"
  by (cases "discrimination p") (simp_all add: clean_item_def Let_def clean_step_fields)

lemma clean_item_difficulty:
  "difficulty (clean_item mt p) =
     map_option (\<lambda>d. if d < - 4 then - 4 else if 4 < d then 4 else d) (difficulty p)"
  by (cases "difficulty p") (simp_all add: clean_item_def Let_def clean_step_fields)

text \<open>
  C9.  On every row of a parameter table, cleaning takes the absolute value of a
  negative discrimination, then lowers a value above 4 to 4, then raises a value
  below 0.1 to 0.1, in this order; so a discrimination of 5 becomes exactly 4 and a
  discrimination of -0.05 becomes exactly 0.1.
\<close>

theorem clean_discrimination_steps:
  assumes "i < length ps"
  shows "discrimination (clean_parameters ps mt ! i) =
           map_option
             (\<lambda>d. let d1 = (if d < 0 then \<bar>d\<bar> else d);
                      d2 = (if 4 < d1 then 4 else d1)
                  in if d2 < 0.1 then 0.1 else d2)
             (discrimination (ps ! i))
         \<and> (discrimination (ps ! i) = Some 5 \<longrightarrow>
               discrimination (clean_parameters ps mt ! i) = Some 4)
         \<and> (discrimination (ps ! i) = Some (- 0.05) \<longrightarrow>
               discrimination (clean_parameters ps mt ! i) = Some 0.1)"
  using assms by (simp add: clean_parameters_def clean_item_discrimination Let_def)

theorem clean_discrimination_steps_witness:
  "map discrimination (clean_parameters [raw_item 5, raw_item (- 0.05)] ''3PL'') =
     [Some 4, Some 0.1]"
proof -
  have l: "(0::nat) < length [raw_item 5, raw_item (- 0.05)]"
          "(1::nat) < length [raw_item 5, raw_item (- 0.05)]" by simp_all
  have a: "discrimination ([raw_item 5, raw_item (- 0.05)] ! 0) = Some 5"
    by (simp add: raw_item_def)
  have b: "discrimination ([raw_item 5, raw_item (- 0.05)] ! 1) = Some (- 0.05)"
    by (simp add: raw_item_def)
  show ?thesis
    using clean_discrimination_steps [OF l(1), of "''3PL''"]
          clean_discrimination_steps [OF l(2), of "''3PL''"] a b
    by (simp add: clean_parameters_def)
qed

lemma default_round_some: "\<exists>v. default_round d x = Some v"
  by (cases x) (simp_all add: default_round_def)

lemma extract_item_row_present:
  "\<exists>a b. discrimination (extract_item_row t se mt ir) = Some a
       \<and> difficulty (extract_item_row t se mt ir) = Some b"
  using default_round_some by (simp add: extract_item_row_def Let_def)

lemma clean_item_in_range:
  assumes "discrimination p = Some a" and "difficulty p = Some b"
  shows "\<exists>a' b'. discrimination (clean_item mt p) = Some a' \<and> 0.1 \<le> a' \<and> a' \<le> 4
           \<and> difficulty (clean_item mt p) = Some b' \<and> - 4 \<le> b' \<and> b' \<le> 4"
  using assms by (simp add: clean_item_discrimination clean_item_difficulty Let_def)

text \<open>
  C10.  For every coefficient table, table of standard errors (or none) and model
  type, every row produced by extraction followed by cleaning has a discrimination
  that is present and lies in [0.1, 4] and a difficulty that is present and lies in
  [-4, 4].
\<close>

theorem extracted_cleaned_in_range:
  "list_all
     (\<lambda>p. \<exists>a b. discrimination p = Some a \<and> 0.1 \<le> a \<and> a \<le> 4
              \<and> difficulty p = Some b \<and> - 4 \<le> b \<and> b \<le> 4)
     (clean_parameters (extract_item_params params_table params_se_table mt) mt)"
  unfolding list_all_iff clean_parameters_def extract_item_params_def
proof (intro ballI)
  fix p
  assume "p \<in> set (map (clean_item mt)
            (map (extract_item_row params_table params_se_table mt)
               (zip [1..<Suc (nrow params_table)] (mrows params_table))))"
  then obtain ir where p: "p = clean_item mt (extract_item_row params_table params_se_table mt ir)"
    by auto
  obtain a b where
    "discrimination (extract_item_row params_table params_se_table mt ir) = Some a"
    "difficulty (extract_item_row params_table params_se_table mt ir) = Some b"
    using extract_item_row_present by blast
  then show "\<exists>a b. discrimination p = Some a \<and> 0.1 \<le> a \<and> a \<le> 4
              \<and> difficulty p = Some b \<and> - 4 \<le> b \<and> b \<le> 4"
    unfolding p by (rule clean_item_in_range)
qed

lemma wild_extracted:
  "map (\<lambda>p. (discrimination p, difficulty p)) (extract_item_params wild_coefs None ''3PL'') =
     [(Some 1, Some 100), (Some (- 7.3), Some 0), (Some 0.05, Some (- 12.5))]"
  by (simp add: extract_item_params_def wild_coefs_def nrow_def extract_item_row_def Let_def
      row_get_def default_round_def r_round_def round_half_even_def upt_rec)

theorem extracted_cleaned_in_range_witness:
  "list_all
     (\<lambda>p. \<exists>a b. discrimination p = Some a \<and> 0.1 \<le> a \<and> a \<le> 4
              \<and> difficulty p = Some b \<and> - 4 \<le> b \<and> b \<le> 4)
     (clean_parameters (extract_item_params wild_coefs None ''3PL'') ''3PL'')
   \<and> map (\<lambda>p. (discrimination p, difficulty p))
       (clean_parameters (extract_item_params wild_coefs None ''3PL'') ''3PL'') =
       [(Some 1, Some 4), (Some 4, Some 0), (Some 0.1, Some (- 4))]"
proof -
  have "map (\<lambda>p. (discrimination p, difficulty p))
         (clean_parameters (extract_item_params wild_coefs None ''3PL'') ''3PL'') =
        map (\<lambda>(a, b). (map_option
                 (\<lambda>d. let d1 = (if d < 0 then \<bar>d\<bar> else d);
                          d2 = (if 4 < d1 then 4 else d1)
                      in if d2 < 0.1 then 0.1 else d2) a,
               map_option (\<lambda>d. if d < - 4 then - 4 else if 4 < d then 4 else d) b))
          (map (\<lambda>p. (discrimination p, difficulty p))
             (extract_item_params wild_coefs None ''3PL''))"
    by (simp add: clean_parameters_def clean_item_discrimination clean_item_difficulty comp_def)
  then show ?thesis
    using extracted_cleaned_in_range [of wild_coefs None "''3PL''"]
    by (simp add: wild_extracted)
qed

section \<open>Properties of the fallback\<close>

lemma r_any_False:
  "r_any (map f rs) = Some False \<longleftrightarrow> list_all (\<lambda>r. f r = Some False) rs"
proof
  assume "r_any (map f rs) = Some False"
  then have t: "Some True \<notin> set (map f rs)" and n: "None \<notin> set (map f rs)"
    by (simp_all add: r_any_def split: if_splits)
  show "list_all (\<lambda>r. f r = Some False) rs"
    unfolding list_all_iff
  proof
    fix r
    assume "r \<in> set rs"
    then have m: "f r \<in> set (map f rs)" by simp
    show "f r = Some False"
    proof (cases "f r")
      case None
      with m n show ?thesis by simp
    next
      case (Some v)
      have "v \<noteq> True"
      proof
        assume "v = True"
        with Some m t show False by simp
      qed
      with Some show ?thesis by simp
    qed
  qed
next
  assume "list_all (\<lambda>r. f r = Some False) rs"
  then have "set (map f rs) \<subseteq> {Some False}"
    by (auto simp: list_all_iff)
  then have "Some True \<notin> set (map f rs)" and "None \<notin> set (map f rs)"
    by blast+
  then show "r_any (map f rs) = Some False"
    by (simp add: r_any_def)
qed

lemma r_any_True:
  "r_any (map f rs) = Some True \<longleftrightarrow> list_ex (\<lambda>r. f r = Some True) rs"
  by (auto simp: r_any_def list_ex_iff image_iff)

lemma r_or_False: "r_or p q = Some False \<longleftrightarrow> p = Some False \<and> q = Some False"
  by (cases p; cases q) (auto simp: r_or_def)

lemma r_or_True: "r_or p q = Some True \<longleftrightarrow> p = Some True \<or> q = Some True"
  by (cases p; cases q) (auto simp: r_or_def)

lemma row_extreme_False:
  "row_extreme a b g = Some False \<longleftrightarrow> inside 0.01 10 a \<and> inside (- 10) 10 b \<and> inside 0 0.5 g"
  by (cases a; cases b; cases g)
    (auto simp: row_extreme_def r_or_False r_gt_def r_lt_def inside_def)

lemma row_extreme_True:
  "row_extreme a b g = Some True \<longleftrightarrow> outside 0.01 10 a \<or> outside (- 10) 10 b \<or> outside 0 0.5 g"
  by (cases a; cases b; cases g)
    (auto simp: row_extreme_def r_or_True r_gt_def r_lt_def outside_def)

lemma zip_columns:
  "map (\<lambda>(x, y, z). h x y z) (zip (map f rs) (zip (map g rs) (map k rs))) =
   map (\<lambda>r. h (f r) (g r) (k r)) rs"
  by (induction rs) auto

lemma extreme_params_columns:
  assumes "has_abg t"
  shows "extreme_params t =
     Inr (r_any (map (\<lambda>r. row_extreme (row_get (colnames t) r ''a'')
                              (row_get (colnames t) r ''b'') (row_get (colnames t) r ''g''))
                   (mrows t)))"
  using assms by (simp add: extreme_params_def matrix_col_def has_abg_def zip_columns)

lemma extreme_params_no_columns:
  assumes "\<not> has_abg t"
  shows "extreme_params t = Inl SubscriptOutOfBounds"
  using assms by (auto simp: extreme_params_def matrix_col_def has_abg_def)

lemma extreme_params_False:
  "extreme_params t = Inr (Some False) \<longleftrightarrow> has_abg t \<and> all_inside t"
proof (cases "has_abg t")
  case True
  then show ?thesis
    by (simp add: extreme_params_columns r_any_False all_inside_def row_extreme_False)
next
  case False
  then show ?thesis by (simp add: extreme_params_no_columns)
qed

lemma extreme_params_True:
  "extreme_params t = Inr (Some True) \<longleftrightarrow> has_abg t \<and> some_outside t"
proof (cases "has_abg t")
  case True
  then show ?thesis
    by (simp add: extreme_params_columns r_any_True some_outside_def row_extreme_True)
next
  case False
  then show ?thesis by (simp add: extreme_params_no_columns)
qed

lemma fit_when_accepted:
  assumes "mirt M ''3PL'' = Inr m" and "converged m" and "has_abg (coef_items m)"
    and "all_inside (coef_items m)"
  shows "fit_irt_model mirt M = Inr \<lparr>fit_model = m, fit_type = ''3PL''\<rparr>"
proof -
  have "extreme_params (coef_items m) = Inr (Some False)"
    using assms by (simp add: extreme_params_False)
  then show ?thesis using assms by (simp add: fit_irt_model_def)
qed

lemma fit_when_rejected:
  assumes "rich_rejected mirt M"
  shows "fit_irt_model mirt M = fit_2pl mirt M"
proof (cases "mirt M ''3PL''")
  case (Inl msg)
  then show ?thesis by (simp add: fit_irt_model_def)
next
  case (Inr m)
  show ?thesis
  proof (cases "converged m")
    case False
    with Inr show ?thesis by (simp add: fit_irt_model_def)
  next
    case True
    with Inr assms have "has_abg (coef_items m) \<and> some_outside (coef_items m)"
      by (simp add: rich_rejected_def)
    then have "extreme_params (coef_items m) = Inr (Some True)"
      by (simp add: extreme_params_True)
    with Inr True show ?thesis by (simp add: fit_irt_model_def)
  qed
qed

lemma fit_2pl_type: "fit_2pl mirt M = Inr r \<Longrightarrow> fit_type r = ''2PL''"
  by (auto simp: fit_2pl_def split: sum.splits)

lemma fit_type_3pl:
  assumes "fit_irt_model mirt M = Inr r" and "fit_type r = ''3PL''"
  shows "rich_accepted mirt M \<and> mirt M ''3PL'' = Inr (fit_model r)"
proof -
  have no2: "fit_2pl mirt M \<noteq> Inr r"
    using assms(2) fit_2pl_type by fastforce
  show ?thesis
  proof (cases "mirt M ''3PL''")
    case (Inl msg)
    with assms(1) no2 show ?thesis by (simp add: fit_irt_model_def)
  next
    case (Inr m)
    show ?thesis
    proof (cases "converged m")
      case False
      with Inr assms(1) no2 show ?thesis by (simp add: fit_irt_model_def)
    next
      case True
      show ?thesis
      proof (cases "extreme_params (coef_items m)")
        case (Inl e)
        with Inr True assms(1) show ?thesis by (simp add: fit_irt_model_def)
      next
        case ex: (Inr v)
        show ?thesis
        proof (cases v)
          case None
          with ex Inr True assms(1) show ?thesis by (simp add: fit_irt_model_def)
        next
          case (Some extreme)
          show ?thesis
          proof (cases extreme)
            case True
            with Some ex Inr \<open>converged m\<close> assms(1) no2 show ?thesis
              by (simp add: fit_irt_model_def)
          next
            case False
            with Some ex Inr \<open>converged m\<close> assms(1)
            have r: "r = \<lparr>fit_model = m, fit_type = ''3PL''\<rparr>"
              by (simp add: fit_irt_model_def)
            from False Some ex have "has_abg (coef_items m) \<and> all_inside (coef_items m)"
              by (simp add: extreme_params_False [symmetric])
            with Inr \<open>converged m\<close> r show ?thesis
              by (simp add: rich_accepted_def)
          qed
        qed
      qed
    qed
  qed
qed

lemma edge_accepted: "rich_accepted (engine_of (Inr edge_model) simple) M"
  by (simp add: rich_accepted_def engine_of_def edge_model_def model_with_def coef_table_def
      has_abg_def all_inside_def inside_def row_get_def)

lemma guessy_rejected: "rich_rejected (engine_of (Inr guessy_model) simple) M"
  by (simp add: rich_rejected_def engine_of_def guessy_model_def model_with_def coef_table_def
      has_abg_def some_outside_def outside_def row_get_def)

lemma failed_rejected: "rich_rejected (engine_of (Inl msg) simple) M"
  by (simp add: rich_rejected_def engine_of_def)

lemma engine_of_simple: "engine_of rich simple M ''2PL'' = simple"
  by (simp add: engine_of_def)

lemma engine_of_rich: "engine_of rich simple M ''3PL'' = rich"
  by (simp add: engine_of_def)

text \<open>
  C1, as the code has it.  \<open>fit_irt_model\<close> returns type 3PL exactly when the Rich call
  succeeds, the model reports convergence and every item has its three coefficients
  present with discrimination in the closed interval [0.01, 10], difficulty in
  [-10, 10] and guessing in [0, 0.5]; the model returned is then the engine's Rich
  model.  When the Rich call fails, or the model has not converged, or some coefficient
  lies outside its closed interval, the fit goes on to the Simple call and returns the
  engine's Simple model with type 2PL.  A returned result has one of the two types.
\<close>

theorem fit_rich_iff_closed_bounds:
  "((\<exists>r. fit_irt_model mirt M = Inr r \<and> fit_type r = ''3PL'') \<longleftrightarrow> rich_accepted mirt M)
   \<and> (rich_accepted mirt M \<longrightarrow>
        (\<exists>m. mirt M ''3PL'' = Inr m
           \<and> fit_irt_model mirt M = Inr \<lparr>fit_model = m, fit_type = ''3PL''\<rparr>))
   \<and> (rich_rejected mirt M \<longrightarrow>
        (\<forall>m2. mirt M ''2PL'' = Inr m2 \<longrightarrow>
           fit_irt_model mirt M = Inr \<lparr>fit_model = m2, fit_type = ''2PL''\<rparr>))
   \<and> (\<forall>r. fit_irt_model mirt M = Inr r \<longrightarrow> fit_type r = ''3PL'' \<or> fit_type r = ''2PL'')"
proof (intro conjI)
  have acc: "\<exists>m. mirt M ''3PL'' = Inr m
           \<and> fit_irt_model mirt M = Inr \<lparr>fit_model = m, fit_type = ''3PL''\<rparr>"
    if "rich_accepted mirt M"
  proof (cases "mirt M ''3PL''")
    case (Inl msg)
    with that show ?thesis by (simp add: rich_accepted_def)
  next
    case (Inr m)
    with that have "converged m" "has_abg (coef_items m)" "all_inside (coef_items m)"
      by (simp_all add: rich_accepted_def)
    with Inr show ?thesis by (simp add: fit_when_accepted)
  qed
  show "(\<exists>r. fit_irt_model mirt M = Inr r \<and> fit_type r = ''3PL'') \<longleftrightarrow> rich_accepted mirt M"
  proof
    assume "\<exists>r. fit_irt_model mirt M = Inr r \<and> fit_type r = ''3PL''"
    then show "rich_accepted mirt M" using fit_type_3pl by blast
  next
    assume "rich_accepted mirt M"
    from acc [OF this] obtain m where
      "fit_irt_model mirt M = Inr \<lparr>fit_model = m, fit_type = ''3PL''\<rparr>" by blast
    then show "\<exists>r. fit_irt_model mirt M = Inr r \<and> fit_type r = ''3PL''" by simp
  qed
  show "rich_accepted mirt M \<longrightarrow>
        (\<exists>m. mirt M ''3PL'' = Inr m
           \<and> fit_irt_model mirt M = Inr \<lparr>fit_model = m, fit_type = ''3PL''\<rparr>)"
    using acc by blast
  show "rich_rejected mirt M \<longrightarrow>
        (\<forall>m2. mirt M ''2PL'' = Inr m2 \<longrightarrow>
           fit_irt_model mirt M = Inr \<lparr>fit_model = m2, fit_type = ''2PL''\<rparr>)"
    by (simp add: fit_when_rejected fit_2pl_def)
  show "\<forall>r. fit_irt_model mirt M = Inr r \<longrightarrow> fit_type r = ''3PL'' \<or> fit_type r = ''2PL''"
  proof (intro allI impI)
    fix r
    assume r: "fit_irt_model mirt M = Inr r"
    show "fit_type r = ''3PL'' \<or> fit_type r = ''2PL''"
    proof (cases "fit_2pl mirt M = Inr r")
      case True
      then show ?thesis by (simp add: fit_2pl_type)
    next
      case False
      with r show ?thesis
        by (auto simp: fit_irt_model_def split: sum.splits option.splits if_splits)
    qed
  qed
qed

theorem fit_rich_iff_closed_bounds_witness:
  "fit_irt_model (engine_of (Inr guessy_model) (Inr rough_model)) ten_rows =
     Inr \<lparr>fit_model = rough_model, fit_type = ''2PL''\<rparr>
   \<and> (\<exists>m. engine_of (Inr edge_model) (Inl ''unused'') ten_rows ''3PL'' = Inr m
        \<and> fit_irt_model (engine_of (Inr edge_model) (Inl ''unused'')) ten_rows =
            Inr \<lparr>fit_model = m, fit_type = ''3PL''\<rparr>)"
  using fit_rich_iff_closed_bounds
          [of "engine_of (Inr guessy_model) (Inr rough_model)" ten_rows]
        fit_rich_iff_closed_bounds
          [of "engine_of (Inr edge_model) (Inl ''unused'')" ten_rows]
        guessy_rejected [of "Inr rough_model" ten_rows]
        edge_accepted [of "Inl ''unused''" ten_rows]
  by (simp add: engine_of_simple)

text \<open>
  C1 as stated fails at the lower end of the discrimination interval: a converged Rich
  model with an item of discrimination exactly 0.01 is returned with type 3PL, although
  0.01 is not in (0.01, 10].
\<close>

theorem fit_rich_at_lower_bound:
  "fit_irt_model (engine_of (Inr edge_model) (Inr rough_model)) ten_rows =
     Inr \<lparr>fit_model = edge_model, fit_type = ''3PL''\<rparr>
   \<and> \<not> spec_plausible (coef_items edge_model)"
proof -
  have "has_abg (coef_items edge_model)" "all_inside (coef_items edge_model)"
       "converged edge_model"
    by (simp_all add: edge_model_def model_with_def coef_table_def has_abg_def all_inside_def
        inside_def row_get_def)
  then have "fit_irt_model (engine_of (Inr edge_model) (Inr rough_model)) ten_rows =
     Inr \<lparr>fit_model = edge_model, fit_type = ''3PL''\<rparr>"
    by (simp add: fit_when_accepted engine_of_rich)
  moreover have "\<not> spec_plausible (coef_items edge_model)"
    by (simp add: edge_model_def model_with_def coef_table_def spec_plausible_def
        spec_plausible_item_def row_get_def)
  ultimately show ?thesis by simp
qed

text \<open>
  C4.  Once the Rich model is not taken (the Rich call failed, or the model has not
  converged, or a coefficient is out of bounds), whatever model the engine returns for
  the Simple call is the result, with type 2PL, whether or not it has converged and
  whatever its coefficients; a failure of the Simple call is the failure of the fit,
  in the service and in the standalone script, and reaches the caller of
  \<open>get_or_fit_model\<close>.
\<close>

theorem simple_fit_accepted_unchecked:
  assumes "rich_rejected mirt M"
  shows "(\<forall>m2. mirt M ''2PL'' = Inr m2 \<longrightarrow>
            fit_irt_model mirt M = Inr \<lparr>fit_model = m2, fit_type = ''2PL''\<rparr>
            \<and> fit_irt_model_standalone mirt M = Inr \<lparr>fit_model = m2, fit_type = ''2PL''\<rparr>)
       \<and> (\<forall>msg. mirt M ''2PL'' = Inl msg \<longrightarrow>
            fit_irt_model mirt M = Inl (EstimationError msg)
            \<and> fit_irt_model_standalone mirt M = Inl (EstimationError msg)
            \<and> (\<forall>s key. irt_model_cache s key = None \<longrightarrow>
                  fst (get_or_fit_model mirt s key M) = Inl (EstimationError msg)))"
  using fit_when_rejected [OF assms]
  by (simp add: fit_2pl_def fit_irt_model_standalone_def get_or_fit_model_def Let_def)

theorem simple_fit_accepted_unchecked_witness:
  "\<not> converged rough_model
   \<and> fit_irt_model (engine_of (Inl ''3PL failed'') (Inr rough_model)) ten_rows =
       Inr \<lparr>fit_model = rough_model, fit_type = ''2PL''\<rparr>
   \<and> fit_irt_model (engine_of (Inl ''3PL failed'') (Inl ''2PL failed'')) ten_rows =
       Inl (EstimationError ''2PL failed'')
   \<and> fst (get_or_fit_model (engine_of (Inl ''3PL failed'') (Inl ''2PL failed''))
            empty_service ''data.csv'' ten_rows) = Inl (EstimationError ''2PL failed'')"
proof -
  have "\<not> converged rough_model"
    by (simp add: rough_model_def model_with_def)
  moreover have "irt_model_cache empty_service ''data.csv'' = None"
    by (simp add: empty_service_def)
  ultimately show ?thesis
    using simple_fit_accepted_unchecked
            [OF failed_rejected, of "''3PL failed''" "Inr rough_model" ten_rows]
          simple_fit_accepted_unchecked
            [OF failed_rejected, of "''3PL failed''" "Inl ''2PL failed''" ten_rows]
    by (simp add: engine_of_simple)
qed

section \<open>Properties of the model cache\<close>

lemma cache_hit:
  assumes "irt_model_cache s key = Some entry"
  shows "get_or_fit_model mirt s key M = (Inr entry, s)"
  using assms by (simp add: get_or_fit_model_def)

lemma cache_after_success:
  assumes "get_or_fit_model mirt s key M = (Inr entry, s1)"
  shows "irt_model_cache s1 key = Some entry"
proof (cases "irt_model_cache s key")
  case (Some e)
  with assms show ?thesis by (auto simp: get_or_fit_model_def)
next
  case None
  with assms show ?thesis
    by (cases "fit_irt_model mirt M") (auto simp: get_or_fit_model_def Let_def)
qed

lemma cache_entry_kept:
  assumes "irt_model_cache s key = Some entry"
  shows "irt_model_cache (snd (get_or_fit_model mirt s k M)) key = Some entry"
proof (cases "irt_model_cache s k")
  case (Some e)
  with assms show ?thesis by (simp add: get_or_fit_model_def)
next
  case None
  with assms have "k \<noteq> key" by auto
  with None assms show ?thesis
    by (cases "fit_irt_model mirt M") (simp_all add: get_or_fit_model_def Let_def)
qed

lemma cache_entry_kept_after_calls:
  assumes "irt_model_cache s key = Some entry"
  shows "irt_model_cache (after_calls mirt s calls) key = Some entry"
  using assms
proof (induction calls arbitrary: s)
  case Nil
  then show ?case by (simp add: after_calls_def)
next
  case (Cons c calls)
  obtain k m where c: "c = (k, m)" by (cases c)
  have "irt_model_cache (snd (get_or_fit_model mirt s k m)) key = Some entry"
    using Cons.prems by (rule cache_entry_kept)
  then have "irt_model_cache (after_calls mirt (snd (get_or_fit_model mirt s k m)) calls) key
               = Some entry"
    by (rule Cons.IH)
  then show ?case by (simp add: after_calls_def c)
qed

text \<open>
  C6.  Once \<open>get_or_fit_model\<close> has answered a key with an entry, the entry is stored
  under that key, and every later call with that key, after any further requests to
  the cache, with whatever matrix and whatever engine, returns the same entry and
  leaves the state as it is: the cache is unchanged and \<open>fit_irt_model\<close> is not entered
  again.
\<close>

theorem cache_hit_returns_stored_entry:
  assumes "get_or_fit_model mirt s key M = (Inr entry, s1)"
  shows "get_or_fit_model mirt' s1 key M' = (Inr entry, s1)
       \<and> get_or_fit_model mirt' (after_calls mirt'' s1 calls) key M' =
           (Inr entry, after_calls mirt'' s1 calls)"
proof -
  have "irt_model_cache s1 key = Some entry"
    using assms by (rule cache_after_success)
  then show ?thesis
    by (simp add: cache_hit cache_entry_kept_after_calls)
qed

lemma first_fit_of_edge:
  "get_or_fit_model (engine_of (Inr edge_model) (Inl ''unused'')) empty_service ''data.csv''
     ten_rows =
   (Inr \<lparr>fit_model = edge_model, fit_type = ''3PL''\<rparr>,
    \<lparr>irt_model_cache = [''data.csv'' \<mapsto> \<lparr>fit_model = edge_model, fit_type = ''3PL''\<rparr>],
     fit_calls = 1\<rparr>)"
proof -
  have "has_abg (coef_items edge_model)" "all_inside (coef_items edge_model)"
       "converged edge_model"
    by (simp_all add: edge_model_def model_with_def coef_table_def has_abg_def all_inside_def
        inside_def row_get_def)
  then have "fit_irt_model (engine_of (Inr edge_model) (Inl ''unused'')) ten_rows =
     Inr \<lparr>fit_model = edge_model, fit_type = ''3PL''\<rparr>"
    by (simp add: fit_when_accepted engine_of_rich)
  then show ?thesis
    by (simp add: get_or_fit_model_def empty_service_def Let_def)
qed

theorem cache_hit_returns_stored_entry_witness:
  "get_or_fit_model (engine_of (Inl ''3PL failed'') (Inl ''2PL failed''))
     \<lparr>irt_model_cache = [''data.csv'' \<mapsto> \<lparr>fit_model = edge_model, fit_type = ''3PL''\<rparr>],
      fit_calls = 1\<rparr>
     ''data.csv'' eleven_rows =
   (Inr \<lparr>fit_model = edge_model, fit_type = ''3PL''\<rparr>,
    \<lparr>irt_model_cache = [''data.csv'' \<mapsto> \<lparr>fit_model = edge_model, fit_type = ''3PL''\<rparr>],
     fit_calls = 1\<rparr>)"
  using cache_hit_returns_stored_entry
          [OF first_fit_of_edge, of "engine_of (Inl ''3PL failed'') (Inl ''2PL failed'')"
             eleven_rows]
  by simp

text \<open>
  C7.  When the key is not cached and \<open>fit_irt_model\<close> fails, \<open>get_or_fit_model\<close>
  returns that failure and stores nothing: the cache is unchanged, only the fit is
  counted.  The next call for the key enters \<open>fit_irt_model\<close> again and answers with
  its outcome.  An entry found under a key after a call was either there before or is
  the successful result of the fit made by that call for that key.
\<close>

theorem failed_fit_not_cached:
  assumes "irt_model_cache s key = None" and "fit_irt_model mirt M = Inl e"
  shows "get_or_fit_model mirt s key M = (Inl e, s\<lparr>fit_calls := fit_calls s + 1\<rparr>)
       \<and> irt_model_cache (snd (get_or_fit_model mirt s key M)) = irt_model_cache s
       \<and> fst (get_or_fit_model mirt' (snd (get_or_fit_model mirt s key M)) key M') =
           fit_irt_model mirt' M'
       \<and> fit_calls (snd (get_or_fit_model mirt' (snd (get_or_fit_model mirt s key M)) key M')) =
           fit_calls s + 2
       \<and> (\<forall>k0 s0 M0 k r. irt_model_cache (snd (get_or_fit_model mirt s0 k0 M0)) k = Some r \<longrightarrow>
             irt_model_cache s0 k = Some r \<or> (k = k0 \<and> fit_irt_model mirt M0 = Inr r))"
proof (intro conjI)
  show first: "get_or_fit_model mirt s key M = (Inl e, s\<lparr>fit_calls := fit_calls s + 1\<rparr>)"
    using assms by (simp add: get_or_fit_model_def Let_def)
  show "irt_model_cache (snd (get_or_fit_model mirt s key M)) = irt_model_cache s"
    by (simp add: first)
  have none: "irt_model_cache (s\<lparr>fit_calls := fit_calls s + 1\<rparr>) key = None"
    using assms(1) by simp
  show "fst (get_or_fit_model mirt' (snd (get_or_fit_model mirt s key M)) key M') =
           fit_irt_model mirt' M'"
    unfolding first using none
    by (cases "fit_irt_model mirt' M'") (simp_all add: get_or_fit_model_def Let_def)
  show "fit_calls (snd (get_or_fit_model mirt' (snd (get_or_fit_model mirt s key M)) key M')) =
           fit_calls s + 2"
    unfolding first using none
    by (cases "fit_irt_model mirt' M'") (simp_all add: get_or_fit_model_def Let_def)
  show "\<forall>k0 s0 M0 k r. irt_model_cache (snd (get_or_fit_model mirt s0 k0 M0)) k = Some r \<longrightarrow>
             irt_model_cache s0 k = Some r \<or> (k = k0 \<and> fit_irt_model mirt M0 = Inr r)"
  proof (intro allI impI)
    fix k0 s0 M0 k r
    assume a: "irt_model_cache (snd (get_or_fit_model mirt s0 k0 M0)) k = Some r"
    show "irt_model_cache s0 k = Some r \<or> (k = k0 \<and> fit_irt_model mirt M0 = Inr r)"
    proof (cases "irt_model_cache s0 k0")
      case (Some e0)
      with a show ?thesis by (simp add: get_or_fit_model_def)
    next
      case None
      with a show ?thesis
        by (cases "fit_irt_model mirt M0")
          (auto simp: get_or_fit_model_def Let_def split: if_splits)
    qed
  qed
qed

theorem failed_fit_not_cached_witness:
  "get_or_fit_model (engine_of (Inl ''3PL failed'') (Inl ''2PL failed'')) empty_service
     ''data.csv'' ten_rows =
     (Inl (EstimationError ''2PL failed''), empty_service\<lparr>fit_calls := 1\<rparr>)
   \<and> fst (get_or_fit_model (engine_of (Inl ''3PL failed'') (Inr rough_model))
            (empty_service\<lparr>fit_calls := 1\<rparr>) ''data.csv'' ten_rows) =
       Inr \<lparr>fit_model = rough_model, fit_type = ''2PL''\<rparr>
   \<and> fit_calls (snd (get_or_fit_model (engine_of (Inl ''3PL failed'') (Inr rough_model))
            (empty_service\<lparr>fit_calls := 1\<rparr>) ''data.csv'' ten_rows)) = 2"
proof -
  have a: "irt_model_cache empty_service ''data.csv'' = None"
    by (simp add: empty_service_def)
  have b: "fit_irt_model (engine_of (Inl ''3PL failed'') (Inl ''2PL failed'')) ten_rows =
             Inl (EstimationError ''2PL failed'')"
    by (simp add: fit_when_rejected failed_rejected fit_2pl_def engine_of_simple)
  have c: "fit_irt_model (engine_of (Inl ''3PL failed'') (Inr rough_model)) ten_rows =
             Inr \<lparr>fit_model = rough_model, fit_type = ''2PL''\<rparr>"
    by (simp add: fit_when_rejected failed_rejected fit_2pl_def engine_of_simple)
  have d: "fit_calls empty_service = 0"
    by (simp add: empty_service_def)
  note t = failed_fit_not_cached
             [OF a b, of "engine_of (Inl ''3PL failed'') (Inr rough_model)" ten_rows]
  have first: "get_or_fit_model (engine_of (Inl ''3PL failed'') (Inl ''2PL failed''))
                 empty_service ''data.csv'' ten_rows =
               (Inl (EstimationError ''2PL failed''), empty_service\<lparr>fit_calls := 1\<rparr>)"
    using t [THEN conjunct1] by (simp add: d)
  show ?thesis
    using t [THEN conjunct2, THEN conjunct2, THEN conjunct1]
          t [THEN conjunct2, THEN conjunct2, THEN conjunct2, THEN conjunct1]
    unfolding first by (simp add: c d)
qed

section \<open>Properties of the operations\<close>

lemma validate_binary_table:
  assumes "fs p = Some resp" and "list_all (list_all binary_or_na) (mrows resp)"
  shows "validate_and_clean_data fs (Some p) =
     (if length (filter (\<lambda>r. valid_row (ncol resp) (row_sum r)) (mrows resp)) < 10
      then Inl InsufficientDataError
      else Inr \<lparr>resp_clean =
                   resp\<lparr>mrows := filter (\<lambda>r. valid_row (ncol resp) (row_sum r)) (mrows resp)\<rparr>,
                 original_resp = resp\<rparr>)"
  using assms
  by (simp add: validate_and_clean_data_def unique_vals_binary Let_def rowSums_na_rm_def
      select_rows_def comp_def select_valid_rows count_valid_rows)

lemma validate_schema_error:
  assumes "fs p = Some resp" and "\<not> list_all (list_all binary_or_na) (mrows resp)"
  shows "validate_and_clean_data fs (Some p) =
           Inl (SchemaError (r_sort (r_unique (as_vector resp))))"
  using assms by (simp add: validate_and_clean_data_def unique_vals_binary Let_def)

lemma set_present: "set (List.map_filter (\<lambda>c. c) xs) = {v. Some v \<in> set xs}"
  by (induction xs) (auto split: option.splits)

lemma set_r_sort: "set (r_sort xs) = {v. Some v \<in> set xs}"
  by (simp add: r_sort_def set_present)

lemma found_values:
  "set (r_sort (r_unique (as_vector m))) = {v. \<exists>r \<in> set (mrows m). Some v \<in> set r}"
  by (auto simp: set_r_sort set_unique_vals)

lemma offending_cell:
  assumes "\<not> list_all (list_all binary_or_na) (mrows m)"
  shows "\<exists>r v. r \<in> set (mrows m) \<and> Some v \<in> set r \<and> v \<noteq> 0 \<and> v \<noteq> 1"
proof -
  from assms obtain r c where r: "r \<in> set (mrows m)" and c: "c \<in> set r" "\<not> binary_or_na c"
    by (auto simp: list_all_iff)
  from c(2) obtain v where "c = Some v" "v \<noteq> 0" "v \<noteq> 1"
    by (cases c) (auto simp: binary_or_na_def)
  with r c(1) show ?thesis by blast
qed

lemma all_rows_selected:
  assumes "list_all (\<lambda>r. valid_row (ncol m) (row_sum r)) (mrows m)"
  shows "select_rows m (map (valid_row (ncol m)) (rowSums_na_rm m)) = m"
proof -
  have "filter (\<lambda>r. valid_row (ncol m) (row_sum r)) (mrows m) = mrows m"
    using assms by (simp add: list_all_iff)
  then show ?thesis
    by (simp add: select_rows_def rowSums_na_rm_def comp_def select_valid_rows)
qed

lemma perform_irt_analysis_steps:
  assumes "fs f = Some responses"
    and "list_all (\<lambda>r. valid_row (ncol responses) (row_sum r)) (mrows responses)"
    and "10 \<le> nrow responses"
    and "fit_irt_model mirt responses = Inr fitted"
    and "icc_loop (fit_model fitted) (seq_len (ncol responses)) [] = Inr icc"
  shows "perform_irt_analysis mirt fs f =
     Inr \<lparr>res_model_type = fit_type fitted,
          res_items = ncol responses,
          res_respondents = nrow responses,
          res_parameters = item_parameter_table (fit_model fitted) (fit_type fitted),
          res_model_fit = fit_statistics (fit_model fitted),
          res_icc = icc,
          res_iif = iif_loop (fit_model fitted) (seq_len (ncol responses)) [],
          res_test_information = make_curve (test_information_values (fit_model fitted))\<rparr>"
  using assms
  by (simp add: perform_irt_analysis_def Let_def all_rows_selected
      fit_irt_model_standalone_def)

lemma seq_len_3: "seq_len 3 = [1, 2, 3]"
  by (simp add: seq_len_def upt_rec)

lemma item_names_3:
  "item_name (Suc 0) = ''item_1''" "item_name 2 = ''item_2''" "item_name 3 = ''item_3''"
  by (simp_all add: item_name_def)

lemma second_item_values:
  "item_values second_item_fails (Some 1) iteminfo = Inr (on_grid (\<lambda>t. 1 / 4))"
  "item_values second_item_fails (Some 2) iteminfo = Inl (EngineFailure ''iteminfo failed'')"
  "item_values second_item_fails (Some 3) iteminfo = Inr (on_grid (\<lambda>t. 1 / 4))"
  "item_values second_item_fails x probtrace = Inr (on_grid (\<lambda>t. 1 / 2))"
  by (simp_all add: item_values_def second_item_fails_def model_with_def flat_item_def
      broken_item_def)

lemma ten_rows_valid:
  "list_all (\<lambda>r. valid_row (ncol ten_rows) (row_sum r)) (mrows ten_rows)"
  "10 \<le> nrow ten_rows" "ncol ten_rows = 3"
  by (simp_all add: ten_rows_def ncol_def nrow_def list_all_replicate valid_row_def
      mixed_row_sum)

text \<open>
  C2 does not hold on the code for tables with missing cells.  A row whose present
  responses are all 1 and which has a missing cell has a sum below the number of items
  and is kept, although it holds no incorrect response; the same row with 0 in place
  of 1 is dropped.  Ten rows \<open>1, 1, NA\<close> pass validation unchanged, ten rows
  \<open>0, 0, NA\<close> are refused for lack of valid rows.
\<close>

theorem all_correct_rows_with_missing_kept:
  "validate_and_clean_data [''gaps.csv'' \<mapsto> gap_rows] (Some ''gaps.csv'') =
     Inr \<lparr>resp_clean = gap_rows, original_resp = gap_rows\<rparr>
   \<and> mrows gap_rows = replicate 10 [Some 1, Some 1, None]
   \<and> validate_and_clean_data [''blank.csv'' \<mapsto> blank_rows] (Some ''blank.csv'') =
       Inl InsufficientDataError"
proof -
  have g: "list_all (list_all binary_or_na) (mrows gap_rows)"
    by (simp add: gap_rows_def list_all_replicate binary_or_na_def)
  have b: "list_all (list_all binary_or_na) (mrows blank_rows)"
    by (simp add: blank_rows_def list_all_replicate binary_or_na_def)
  have gs: "row_sum [Some 1, Some 1, None] = 2" and bs: "row_sum [Some 0, Some 0, None] = 0"
    by (simp_all add: row_sum_def)
  have "validate_and_clean_data [''gaps.csv'' \<mapsto> gap_rows] (Some ''gaps.csv'') =
     Inr \<lparr>resp_clean = gap_rows, original_resp = gap_rows\<rparr>"
    using validate_binary_table [of "[''gaps.csv'' \<mapsto> gap_rows]" "''gaps.csv''" gap_rows] g
    by (simp add: gap_rows_def ncol_def filter_replicate valid_row_def gs)
  moreover have
    "validate_and_clean_data [''blank.csv'' \<mapsto> blank_rows] (Some ''blank.csv'') =
       Inl InsufficientDataError"
    using validate_binary_table [of "[''blank.csv'' \<mapsto> blank_rows]" "''blank.csv''" blank_rows] b
    by (simp add: blank_rows_def ncol_def filter_replicate valid_row_def bs)
  ultimately show ?thesis by (simp add: gap_rows_def)
qed

text \<open>
  C3 does not hold on the standalone script.  With a model whose second item fails in
  \<open>iteminfo\<close>, \<^verbatim>\<open>perform_irt_analysis\<close> succeeds and its list of information curves has
  entries for the first and the third item only: the failed item has no curve at all,
  where the handler of \<^verbatim>\<open>/iif\<close> gives it a block of 101 missing values.
\<close>

theorem standalone_drops_failed_item:
  "(\<exists>r. perform_irt_analysis (engine_of (Inl ''3PL failed'') (Inr second_item_fails))
          [''data.csv'' \<mapsto> ten_rows] ''data.csv'' = Inr r
        \<and> map fst (res_iif r) = [''item_1'', ''item_3'']
        \<and> map fst (res_icc r) = [''item_1'', ''item_2'', ''item_3''])
   \<and> iif_item second_item_fails 2 = item_block 2 (replicate 101 None)"
proof -
  let ?E = "engine_of (Inl ''3PL failed'') (Inr second_item_fails)"
  let ?p = "make_curve (on_grid (\<lambda>t. 1 / 2))"
  let ?q = "make_curve (on_grid (\<lambda>t. 1 / 4))"
  have fit: "fit_irt_model ?E ten_rows = Inr \<lparr>fit_model = second_item_fails, fit_type = ''2PL''\<rparr>"
    by (simp add: fit_when_rejected failed_rejected fit_2pl_def engine_of_simple)
  have icc: "icc_loop second_item_fails (seq_len (ncol ten_rows)) [] =
               Inr [(''item_1'', ?p), (''item_2'', ?p), (''item_3'', ?p)]"
    by (simp add: ten_rows_valid seq_len_3 second_item_values item_names_3)
  have iif: "iif_loop second_item_fails (seq_len (ncol ten_rows)) [] =
               [(''item_1'', ?q), (''item_3'', ?q)]"
    using second_item_values(1-3)
    by (simp add: ten_rows_valid seq_len_3 item_names_3)
  have f: "[''data.csv'' \<mapsto> ten_rows] ''data.csv'' = Some ten_rows" by simp
  have "perform_irt_analysis ?E [''data.csv'' \<mapsto> ten_rows] ''data.csv'' =
     Inr \<lparr>res_model_type = ''2PL'',
          res_items = ncol ten_rows,
          res_respondents = nrow ten_rows,
          res_parameters = item_parameter_table second_item_fails ''2PL'',
          res_model_fit = fit_statistics second_item_fails,
          res_icc = [(''item_1'', ?p), (''item_2'', ?p), (''item_3'', ?p)],
          res_iif = [(''item_1'', ?q), (''item_3'', ?q)],
          res_test_information = make_curve (test_information_values second_item_fails)\<rparr>"
    using perform_irt_analysis_steps
            [of "[''data.csv'' \<mapsto> ten_rows]" "''data.csv''" ten_rows ?E,
             OF f ten_rows_valid(1) ten_rows_valid(2) fit]
    by (simp add: icc iif)
  moreover have "iif_item second_item_fails 2 = item_block 2 (replicate 101 None)"
    using second_item_values(2)
    by (simp add: iif_item_def na_curve_def theta_grid_def)
  ultimately show ?thesis by simp
qed

text \<open>
  C8, as the code has it.  In the service, a table with a cell other than 0, 1 or
  missing makes \<open>validate_and_clean_data\<close> fail with \<open>SchemaError\<close>, which carries
  the sorted distinct values of the table, the offending ones among them.  Each of the
  four handlers calls it before \<open>get_or_fit_model\<close>, so that on such a table the cache
  and the count of fits stay as they were; the handlers of \<^verbatim>\<open>/icc\<close>, \<^verbatim>\<open>/iif\<close> and
  \<^verbatim>\<open>/testinfo\<close> answer with a failure built from that error.  (The standalone script
  makes no such check.)
\<close>

theorem schema_error_before_fit:
  assumes "fs p = Some resp" and "\<not> list_all (list_all binary_or_na) (mrows resp)"
  shows "validate_and_clean_data fs (Some p) =
           Inl (SchemaError (r_sort (r_unique (as_vector resp))))
       \<and> set (r_sort (r_unique (as_vector resp))) =
           {v. \<exists>r \<in> set (mrows resp). Some v \<in> set r}
       \<and> (\<exists>v. v \<noteq> 0 \<and> v \<noteq> 1 \<and> v \<in> set (r_sort (r_unique (as_vector resp))))
       \<and> snd (analyze_endpoint mirt fs s (Some p)) = s
       \<and> icc_endpoint as_numeric mirt fs s (Some p) req_item_id =
           (Failure (Message (SchemaError (r_sort (r_unique (as_vector resp))))), s)
       \<and> iif_endpoint mirt fs s (Some p) =
           (Failure (IIFFailed (SchemaError (r_sort (r_unique (as_vector resp))))), s)
       \<and> testinfo_endpoint mirt fs s (Some p) =
           (Failure (Message (SchemaError (r_sort (r_unique (as_vector resp))))), s)"
proof -
  note v = validate_schema_error [of fs p resp, OF assms]
  have "\<exists>v. v \<noteq> 0 \<and> v \<noteq> 1 \<and> v \<in> set (r_sort (r_unique (as_vector resp)))"
    using offending_cell [OF assms(2)] unfolding found_values by blast
  then show ?thesis
    by (simp add: v found_values analyze_endpoint_def icc_endpoint_def iif_endpoint_def
        testinfo_endpoint_def)
qed

theorem schema_error_before_fit_witness:
  "validate_and_clean_data [''odd.csv'' \<mapsto> odd_rows] (Some ''odd.csv'') =
     Inl (SchemaError [0, 2])
   \<and> snd (analyze_endpoint (engine_of (Inr edge_model) (Inr rough_model))
             [''odd.csv'' \<mapsto> odd_rows] empty_service (Some ''odd.csv'')) = empty_service
   \<and> icc_endpoint (\<lambda>x. None) (engine_of (Inr edge_model) (Inr rough_model))
        [''odd.csv'' \<mapsto> odd_rows] empty_service (Some ''odd.csv'') None =
       (Failure (Message (SchemaError [0, 2])), empty_service)
   \<and> iif_endpoint (engine_of (Inr edge_model) (Inr rough_model))
        [''odd.csv'' \<mapsto> odd_rows] empty_service (Some ''odd.csv'') =
       (Failure (IIFFailed (SchemaError [0, 2])), empty_service)
   \<and> testinfo_endpoint (engine_of (Inr edge_model) (Inr rough_model))
        [''odd.csv'' \<mapsto> odd_rows] empty_service (Some ''odd.csv'') =
       (Failure (Message (SchemaError [0, 2])), empty_service)"
proof -
  have a: "[''odd.csv'' \<mapsto> odd_rows] ''odd.csv'' = Some odd_rows" by simp
  have b: "\<not> list_all (list_all binary_or_na) (mrows odd_rows)"
    by (simp add: odd_rows_def list_all_replicate binary_or_na_def)
  have c: "r_sort (r_unique (as_vector odd_rows)) = [0, 2]"
    by code_simp
  show ?thesis
    using schema_error_before_fit
            [of "[''odd.csv'' \<mapsto> odd_rows]" "''odd.csv''" odd_rows
               "engine_of (Inr edge_model) (Inr rough_model)" empty_service
               "\<lambda>x. None" None, OF a b]
    by (simp add: c)
qed

text \<open>
  C8 as stated fails on the standalone script: the table that the service refuses with
  \<open>SchemaError\<close> is fitted and analysed by \<^verbatim>\<open>perform_irt_analysis\<close>.
\<close>

theorem standalone_accepts_non_binary:
  "validate_and_clean_data [''odd.csv'' \<mapsto> odd_rows] (Some ''odd.csv'') =
     Inl (SchemaError [0, 2])
   \<and> \<not> isl (perform_irt_analysis (engine_of (Inl ''3PL failed'') (Inr rough_model))
              [''odd.csv'' \<mapsto> odd_rows] ''odd.csv'')"
proof -
  let ?E = "engine_of (Inl ''3PL failed'') (Inr rough_model)"
  have a: "[''odd.csv'' \<mapsto> odd_rows] ''odd.csv'' = Some odd_rows" by simp
  have b: "\<not> list_all (list_all binary_or_na) (mrows odd_rows)"
    by (simp add: odd_rows_def list_all_replicate binary_or_na_def)
  have c: "r_sort (r_unique (as_vector odd_rows)) = [0, 2]"
    by code_simp
  have rs: "row_sum [Some 2, Some 0, Some 0] = 2"
    by (simp add: row_sum_def)
  have valid: "list_all (\<lambda>r. valid_row (ncol odd_rows) (row_sum r)) (mrows odd_rows)"
              "10 \<le> nrow odd_rows"
    by (simp_all add: odd_rows_def ncol_def nrow_def list_all_replicate valid_row_def rs)
  have n: "ncol odd_rows = 3" by (simp add: odd_rows_def ncol_def)
  have fit: "fit_irt_model ?E odd_rows = Inr \<lparr>fit_model = rough_model, fit_type = ''2PL''\<rparr>"
    by (simp add: fit_when_rejected failed_rejected fit_2pl_def engine_of_simple)
  have pv: "item_values rough_model x probtrace = Inr (on_grid (\<lambda>t. 1 / 2))" for x
    by (simp add: item_values_def rough_model_def model_with_def flat_item_def)
  have icc: "icc_loop rough_model (seq_len (ncol odd_rows)) [] =
               Inr [(''item_1'', make_curve (on_grid (\<lambda>t. 1 / 2))),
                    (''item_2'', make_curve (on_grid (\<lambda>t. 1 / 2))),
                    (''item_3'', make_curve (on_grid (\<lambda>t. 1 / 2)))]"
    by (simp add: n seq_len_3 pv item_names_3)
  have "\<not> isl (perform_irt_analysis ?E [''odd.csv'' \<mapsto> odd_rows] ''odd.csv'')"
    using perform_irt_analysis_steps
            [of "[''odd.csv'' \<mapsto> odd_rows]" "''odd.csv''" odd_rows ?E,
             OF a valid(1) valid(2) fit]
    by (simp add: icc)
  then show ?thesis
    using validate_schema_error [of "[''odd.csv'' \<mapsto> odd_rows]" "''odd.csv''" odd_rows, OF a b]
    by (simp add: c)
qed
end
